theory Spec2Isabelle
  imports Main "HOL-Library.Word"
begin

section \<open>Go values as reflection sees them\<close>

text \<open>
  The package \<^verbatim>\<open>structmerge\<close> works on \<^verbatim>\<open>reflect.Value\<close>s. The model keeps what the
  code reads from them: the kind, the type's identity, the fields of a struct (name,
  whether the name is exported, the field's type, the field's value), and the two flags
  behind \<^verbatim>\<open>CanAddr\<close>, \<^verbatim>\<open>CanSet\<close> and \<^verbatim>\<open>CanInterface\<close>.
\<close>

text \<open>\<^verbatim>\<open>reflect.Kind\<close>; \<open>IntK\<close> is \<^verbatim>\<open>reflect.Int\<close>.\<close>

datatype Kind =
    Invalid | Bool
  | IntK | Int8 | Int16 | Int32 | Int64
  | Uint | Uint8 | Uint16 | Uint32 | Uint64 | Uintptr
  | Float32 | Float64 | Complex64 | Complex128
  | Array | Chan | Func | Interface | Map | Ptr | Slice | String | Struct
  | UnsafePointer

text \<open>The five sizes of Go's signed and unsigned integer types
  (\<^verbatim>\<open>int\<close>, \<^verbatim>\<open>int8\<close>, ... and \<^verbatim>\<open>uint\<close>, \<^verbatim>\<open>uint8\<close>, ...).\<close>

datatype isize = Word | W8 | W16 | W32 | W64

text \<open>A type's identity, as \<^verbatim>\<open>reflect.Type\<close> equality sees it: its name.\<close>

type_synonym tid = string

text \<open>
  A Go value. Floats are their IEEE-754 bits, so that comparing with zero is a fact
  about bits. A nil slice, map, pointer, interface, channel or function is \<open>None\<close>.
  A pointer holds its referent: \<^verbatim>\<open>Merge\<close> writes through one pointer only, the
  destination.
\<close>

datatype val =
    VBool bool
  | VInt isize int
  | VUint isize nat
  | VUintptr nat
  | VFloat32 "32 word"
  | VFloat64 "64 word"
  | VComplex64 "32 word" "32 word"
  | VComplex128 "64 word" "64 word"
  | VArray "val list"
  | VChan "nat option"
  | VFunc "nat option"
  | VInterface "(tid \<times> val) option"
  | VMap "(val \<times> val) list option"
  | VPtr tid "val option"
  | VSlice "val list option"
  | VString string
  | VStruct "field list"
  | VUnsafePointer nat
and field =
    StructField (Name: string) (exported: bool) (ftype: tid) (fval: val)

text \<open>
  \<^verbatim>\<open>reflect.Value\<close>: the zero Value is \<open>NoValue\<close>; any other has a type, a value,
  \<^verbatim>\<open>flagAddr\<close> (it is addressable) and \<^verbatim>\<open>flagRO\<close> (it was reached through an
  unexported field).
\<close>

datatype Value =
    NoValue
  | Value (Type: tid) (Val: val) (flagAddr: bool) (flagRO: bool)

text \<open>An \<^verbatim>\<open>interface{}\<close> argument: nil, or a value with its dynamic type.\<close>

datatype iface = Nil | Iface tid val

fun kind_of :: "val \<Rightarrow> Kind" where
  "kind_of (VBool _) = Bool"
| "kind_of (VInt Word _) = IntK"
| "kind_of (VInt W8 _) = Int8"
| "kind_of (VInt W16 _) = Int16"
| "kind_of (VInt W32 _) = Int32"
| "kind_of (VInt W64 _) = Int64"
| "kind_of (VUint Word _) = Uint"
| "kind_of (VUint W8 _) = Uint8"
| "kind_of (VUint W16 _) = Uint16"
| "kind_of (VUint W32 _) = Uint32"
| "kind_of (VUint W64 _) = Uint64"
| "kind_of (VUintptr _) = Uintptr"
| "kind_of (VFloat32 _) = Float32"
| "kind_of (VFloat64 _) = Float64"
| "kind_of (VComplex64 _ _) = Complex64"
| "kind_of (VComplex128 _ _) = Complex128"
| "kind_of (VArray _) = Array"
| "kind_of (VChan _) = Chan"
| "kind_of (VFunc _) = Func"
| "kind_of (VInterface _) = Interface"
| "kind_of (VMap _) = Map"
| "kind_of (VPtr _ _) = Ptr"
| "kind_of (VSlice _) = Slice"
| "kind_of (VString _) = String"
| "kind_of (VStruct _) = Struct"
| "kind_of (VUnsafePointer _) = UnsafePointer"

text \<open>\<^verbatim>\<open>reflect.ValueOf\<close>: of a nil interface the zero Value, else a Value that is
  neither addressable nor read-only.\<close>

fun ValueOf :: "iface \<Rightarrow> Value" where
  "ValueOf Nil = NoValue"
| "ValueOf (Iface t x) = Value t x False False"

text \<open>\<^verbatim>\<open>Value.Kind\<close>.\<close>

fun KindV :: "Value \<Rightarrow> Kind" where
  "KindV NoValue = Invalid"
| "KindV (Value t x a r) = kind_of x"

text \<open>
  \<^verbatim>\<open>Value.Elem\<close> of a pointer: the zero Value for a nil pointer, else the referent,
  addressable, read-only as the pointer is. The code calls it on pointers only.
\<close>

fun Elem :: "Value \<Rightarrow> Value" where
  "Elem (Value t (VPtr te (Some x)) a r) = Value te x True r"
| "Elem _ = NoValue"

text \<open>\<^verbatim>\<open>Value.IsNil\<close>, for the kinds the code calls it on (pointer and interface).\<close>

fun IsNil :: "Value \<Rightarrow> bool" where
  "IsNil (Value t (VPtr te p) a r) = (p = None)"
| "IsNil (Value t (VInterface p) a r) = (p = None)"
| "IsNil _ = False"

text \<open>\<^verbatim>\<open>dst.Type().Elem()\<close> of a pointer Value.\<close>

fun TypeElem :: "Value \<Rightarrow> tid" where
  "TypeElem (Value t (VPtr te p) a r) = te"
| "TypeElem _ = []"

definition CanAddr :: "Value \<Rightarrow> bool" where
  "CanAddr v = (case v of NoValue \<Rightarrow> False | Value t x a r \<Rightarrow> a)"

definition CanSet :: "Value \<Rightarrow> bool" where
  "CanSet v = (case v of NoValue \<Rightarrow> False | Value t x a r \<Rightarrow> a \<and> \<not> r)"

definition CanInterface :: "Value \<Rightarrow> bool" where
  "CanInterface v = (case v of NoValue \<Rightarrow> False | Value t x a r \<Rightarrow> \<not> r)"

text \<open>
  \<^verbatim>\<open>Value.Set\<close> panics (\<open>None\<close>) unless the receiver is settable, the argument is valid
  and not read-only, and the types agree; else the receiver holds the argument's value.
\<close>

fun Set :: "Value \<Rightarrow> Value \<Rightarrow> Value option" where
  "Set (Value t x a r) (Value t' x' a' r') =
     (if a \<and> \<not> r \<and> \<not> r' \<and> t' = t then Some (Value t x' a r) else None)"
| "Set _ _ = None"

text \<open>\<^verbatim>\<open>Value.Addr\<close> panics (\<open>None\<close>) unless the Value is addressable; the pointer is
  read-only as the Value is.\<close>

fun Addr :: "Value \<Rightarrow> Value option" where
  "Addr (Value t x a r) = (if a then Some (Value (CHR ''*'' # t) (VPtr t (Some x)) False r) else None)"
| "Addr NoValue = None"

text \<open>\<^verbatim>\<open>Value.Field(i)\<close> of a struct Value, given the field: addressable as the struct
  is, read-only if the struct is or the field's name is not exported.\<close>

fun FieldV :: "Value \<Rightarrow> field \<Rightarrow> Value" where
  "FieldV (Value t x a r) f = Value (ftype f) (fval f) a (r \<or> \<not> exported f)"
| "FieldV NoValue f = NoValue"

text \<open>The fields of a struct Value (\<^verbatim>\<open>NumField\<close> is their number).\<close>

fun structFields :: "Value \<Rightarrow> field list" where
  "structFields (Value t (VStruct fs) a r) = fs"
| "structFields _ = []"

text \<open>Writing through \<^verbatim>\<open>dst.Elem()\<close> changes what the pointer \<^verbatim>\<open>dst\<close> refers to.\<close>

fun store :: "Value \<Rightarrow> val \<Rightarrow> Value" where
  "store (Value t (VPtr te p) a r) x = Value t (VPtr te (Some x)) a r"
| "store v x = v"

section \<open>Errors, options, configuration\<close>

datatype MergeError =
    ErrInvalidDestination
  | ErrInvalidSource
  | ErrTypeMismatch
  | ErrOther string

text \<open>\<^verbatim>\<open>type MergeOption int\<close> with its three constants.\<close>

type_synonym MergeOption = int

definition IncludeAll :: MergeOption where "IncludeAll = 0"
definition ExcludeEmpty :: MergeOption where "ExcludeEmpty = 1"
definition OverwriteEmpty :: MergeOption where "OverwriteEmpty = 2"

record Config =
  Option :: MergeOption
  Include :: "string list"
  Exclude :: "string list"

text \<open>
  What the program's types bring: for a pointer type that implements \<^verbatim>\<open>Merger\<close>, its
  method \<^verbatim>\<open>Merge(src reflect.Value) error\<close>, as a function from the receiver's referent
  and the source Value to the new referent and the error; and the zero value of a type,
  for \<^verbatim>\<open>reflect.New\<close>.
\<close>

record env =
  merger :: "tid \<Rightarrow> (val \<Rightarrow> Value \<Rightarrow> val \<times> MergeError option) option"
  zero :: "tid \<Rightarrow> val"

definition Implements :: "env \<Rightarrow> tid \<Rightarrow> bool" where
  "Implements E t = (merger E t \<noteq> None)"

definition New :: "env \<Rightarrow> tid \<Rightarrow> Value" where
  "New E t = Value (CHR ''*'' # t) (VPtr t (Some (zero E t))) False False"

text \<open>A call either panics or returns: the error (\<open>None\<close> is \<^verbatim>\<open>nil\<close>) and the state
  of what it wrote to.\<close>

datatype 'a outcome = Panic | Return "MergeError option" 'a

section \<open>Strings and the sets of paths\<close>

text \<open>\<^verbatim>\<open>strings.HasPrefix(s, prefix)\<close> and \<^verbatim>\<open>strings.Contains(s, substr)\<close>.\<close>

definition HasPrefix :: "string \<Rightarrow> string \<Rightarrow> bool" where
  "HasPrefix s p = (length p \<le> length s \<and> take (length p) s = p)"

fun Contains :: "string \<Rightarrow> string \<Rightarrow> bool" where
  "Contains [] sub = HasPrefix [] sub"
| "Contains (c # s) sub = (HasPrefix (c # s) sub \<or> Contains s sub)"

text \<open>
  A \<^verbatim>\<open>map[string]bool\<close> as an association list; a missing key reads \<^verbatim>\<open>false\<close>.
  \<^verbatim>\<open>makeSet\<close> is the loop \<^verbatim>\<open>for _, f := range xs { m[f] = true }\<close>.
\<close>

type_synonym boolmap = "(string \<times> bool) list"

fun assign :: "boolmap \<Rightarrow> string \<Rightarrow> bool \<Rightarrow> boolmap" where
  "assign [] k b = [(k, b)]"
| "assign ((k', b') # m) k b = (if k' = k then (k, b) # m else (k', b') # assign m k b)"

fun lookup :: "boolmap \<Rightarrow> string \<Rightarrow> bool" where
  "lookup [] k = False"
| "lookup ((k', b) # m) k = (if k' = k then b else lookup m k)"

fun makeSet :: "boolmap \<Rightarrow> string list \<Rightarrow> boolmap" where
  "makeSet m [] = m"
| "makeSet m (f # fs) = makeSet (assign m f True) fs"

text \<open>The loop over the keys returns true at the first key that matches; the order in
  which Go visits the keys does not change the result.\<close>

fun anyKeyHasPrefix :: "boolmap \<Rightarrow> string \<Rightarrow> bool" where
  "anyKeyHasPrefix [] p = False"
| "anyKeyHasPrefix ((key, b) # m) p = (if HasPrefix key p then True else anyKeyHasPrefix m p)"

definition shouldInclude :: "string \<Rightarrow> boolmap \<Rightarrow> bool" where
  "shouldInclude fullFieldName includeMap =
     (if lookup includeMap fullFieldName then True
      else if \<not> Contains fullFieldName ''.'' \<and> anyKeyHasPrefix includeMap fullFieldName then True
      else False)"

section \<open>The emptiness test\<close>

text \<open>\<^verbatim>\<open>v.Len()\<close>, \<^verbatim>\<open>v.Bool()\<close>, \<^verbatim>\<open>v.Int()\<close>, \<^verbatim>\<open>v.Uint()\<close> and, for
  \<^verbatim>\<open>v.Float() == 0\<close>, whether the float is a zero: all bits but the sign are 0.\<close>

fun Len :: "val \<Rightarrow> nat" where
  "Len (VArray xs) = length xs"
| "Len (VMap None) = 0"
| "Len (VMap (Some kvs)) = length kvs"
| "Len (VSlice None) = 0"
| "Len (VSlice (Some xs)) = length xs"
| "Len (VString s) = length s"
| "Len _ = 0"

fun BoolOf :: "val \<Rightarrow> bool" where
  "BoolOf (VBool b) = b"
| "BoolOf _ = False"

fun IntOf :: "val \<Rightarrow> int" where
  "IntOf (VInt w i) = i"
| "IntOf _ = 0"

fun UintOf :: "val \<Rightarrow> nat" where
  "UintOf (VUint w n) = n"
| "UintOf (VUintptr n) = n"
| "UintOf _ = 0"

fun FloatIsZero :: "val \<Rightarrow> bool" where
  "FloatIsZero (VFloat32 w) = (take_bit 31 w = 0)"
| "FloatIsZero (VFloat64 w) = (take_bit 63 w = 0)"
| "FloatIsZero _ = False"

fun isZero :: "Value \<Rightarrow> bool" where
  "isZero NoValue = False"
| "isZero (Value t x a r) =
     (case kind_of x of
        Array \<Rightarrow> Len x = 0 | Map \<Rightarrow> Len x = 0 | Slice \<Rightarrow> Len x = 0 | String \<Rightarrow> Len x = 0
      | Bool \<Rightarrow> \<not> BoolOf x
      | IntK \<Rightarrow> IntOf x = 0 | Int8 \<Rightarrow> IntOf x = 0 | Int16 \<Rightarrow> IntOf x = 0
      | Int32 \<Rightarrow> IntOf x = 0 | Int64 \<Rightarrow> IntOf x = 0
      | Uint \<Rightarrow> UintOf x = 0 | Uint8 \<Rightarrow> UintOf x = 0 | Uint16 \<Rightarrow> UintOf x = 0
      | Uint32 \<Rightarrow> UintOf x = 0 | Uint64 \<Rightarrow> UintOf x = 0
      | Float32 \<Rightarrow> FloatIsZero x | Float64 \<Rightarrow> FloatIsZero x
      | Interface \<Rightarrow> IsNil (Value t x a r) | Ptr \<Rightarrow> IsNil (Value t x a r)
      | _ \<Rightarrow> False)"

section \<open>The merge\<close>

text \<open>Writing a field: \<^verbatim>\<open>dstField.Set(x)\<close> and the writes of a call on
  \<^verbatim>\<open>dstField.Addr()\<close> change the field's value and nothing else of it.\<close>

definition setval :: "field \<Rightarrow> val \<Rightarrow> field" where
  "setval d x = StructField (Name d) (exported d) (ftype d) x"

definition writeBack :: "field \<Rightarrow> Value \<Rightarrow> field" where
  "writeBack d p = (case Elem p of NoValue \<Rightarrow> d | Value t x a r \<Rightarrow> setval d x)"

text \<open>
  \<^verbatim>\<open>mergeValues\<close>, with its loop over the fields as \<open>mergeFields\<close> (the fields of
  \<^verbatim>\<open>dst\<close> and \<^verbatim>\<open>src\<close> from index \<^verbatim>\<open>i\<close> on) and the body of the loop as
  \<open>mergeField\<close>. One iteration yields the new state of field \<^verbatim>\<open>i\<close> and either
  goes on (\<^verbatim>\<open>continue\<close>, or the end of the body) or returns the error of the nested
  call. \<^verbatim>\<open>src.Field(i)\<close> panics when the source has no such field. The pointer type
  of a type \<open>t\<close> is \<open>CHR ''*'' # t\<close>; a \<^verbatim>\<open>time.Time\<close> is a struct of type
  \<open>''time.Time''\<close>. Where the code asserts \<^verbatim>\<open>.(Merger)\<close> the type implements the
  interface, so the method is there and the case \<open>None\<close> of its lookup is never taken.
  \<^verbatim>\<open>Value.Interface\<close> panics on a read-only Value.
\<close>

text \<open>The size of a Value's value: the recursion of \<open>mergeValues\<close> goes from a pointer to
  a struct to the fields of the struct, and from a field to the pointer to it.\<close>

fun vsize :: "Value \<Rightarrow> nat" where
  "vsize NoValue = 0"
| "vsize (Value t x a r) = size x"

function mergeValues :: "env \<Rightarrow> Value \<Rightarrow> Value \<Rightarrow> Config \<Rightarrow> string \<Rightarrow> Value outcome"
  and mergeFields :: "env \<Rightarrow> Config \<Rightarrow> boolmap \<Rightarrow> boolmap \<Rightarrow> string \<Rightarrow> Value \<Rightarrow> Value
      \<Rightarrow> field list \<Rightarrow> field list \<Rightarrow> field list outcome"
  and mergeField :: "env \<Rightarrow> Config \<Rightarrow> boolmap \<Rightarrow> boolmap \<Rightarrow> string \<Rightarrow> Value \<Rightarrow> Value
      \<Rightarrow> field \<Rightarrow> field \<Rightarrow> field outcome"
where
  "mergeValues E dst src cfg prefix =
    (if KindV dst \<noteq> Ptr \<or> KindV (Elem dst) \<noteq> Struct then Return (Some ErrInvalidDestination) dst
     else
       case (if IsNil dst then Set dst (New E (TypeElem dst)) else Some dst) of
         None \<Rightarrow> Panic
       | Some dstp \<Rightarrow>
          let dst' = Elem dstp in
          if KindV src \<noteq> Struct then Return (Some ErrInvalidSource) dstp
          else if Type dst' \<noteq> Type src then Return (Some ErrTypeMismatch) dstp
          else if CanInterface dst' \<and> Type dst' = ''time.Time'' then
            (case Set dst' src of
               None \<Rightarrow> Panic
             | Some d \<Rightarrow> Return None (store dstp (Val d)))
          else if CanAddr dst' \<and> Implements E (CHR ''*'' # Type dst') then
            (case Addr dst' of
               None \<Rightarrow> Panic
             | Some p \<Rightarrow>
                 if flagRO p then Panic
                 else (case merger E (Type p) of
                         None \<Rightarrow> Panic
                       | Some m \<Rightarrow> Return (snd (m (Val dst') src)) (store dstp (fst (m (Val dst') src)))))
          else
            let includeMap = makeSet [] (Include cfg);
                excludeMap = makeSet [] (Exclude cfg)
            in case mergeFields E cfg includeMap excludeMap prefix dst' src
                      (structFields dst') (structFields src) of
                 Panic \<Rightarrow> Panic
               | Return err fs \<Rightarrow> Return err (store dstp (VStruct fs)))"
| "mergeFields E cfg includeMap excludeMap prefix dst src [] ss = Return None []"
| "mergeFields E cfg includeMap excludeMap prefix dst src (d # ds) [] = Panic"
| "mergeFields E cfg includeMap excludeMap prefix dst src (d # ds) (s # ss) =
    (case mergeField E cfg includeMap excludeMap prefix dst src d s of
       Panic \<Rightarrow> Panic
     | Return None d' \<Rightarrow>
         (case mergeFields E cfg includeMap excludeMap prefix dst src ds ss of
            Panic \<Rightarrow> Panic
          | Return err r \<Rightarrow> Return err (d' # r))
     | Return (Some err) d' \<Rightarrow> Return (Some err) (d' # ds))"
| "mergeField E cfg includeMap excludeMap prefix dst src d s =
    (let fieldName = Name d;
         fullFieldName = prefix @ fieldName
     in if length (Include cfg) > 0 \<and> \<not> shouldInclude fullFieldName includeMap then Return None d
        else if lookup excludeMap fullFieldName then Return None d
        else
          let dstField = FieldV dst d;
              srcField = FieldV src s
          in if CanAddr dstField \<and> Implements E (CHR ''*'' # Type dstField) then
               (case Addr dstField of
                  None \<Rightarrow> Panic
                | Some p \<Rightarrow>
                    if flagRO p then Panic
                    else (case merger E (Type p) of
                            None \<Rightarrow> Panic
                          | Some m \<Rightarrow> Return None (setval d (fst (m (Val dstField) srcField)))))
             else if \<not> CanSet dstField then Return None d
             else if KindV dstField = Struct then
               (case Addr dstField of
                  None \<Rightarrow> Panic
                | Some p \<Rightarrow>
                    (case mergeValues E p srcField cfg (fullFieldName @ ''.'') of
                       Panic \<Rightarrow> Panic
                     | Return err p' \<Rightarrow> Return err (writeBack d p')))
             else
               let shouldSet =
                     (if Option cfg = ExcludeEmpty then \<not> isZero srcField
                      else if Option cfg = OverwriteEmpty then isZero dstField
                      else True)
               in if shouldSet \<or> Option cfg = IncludeAll then
                    (case Set dstField srcField of
                       None \<Rightarrow> Panic
                     | Some f \<Rightarrow> Return None (setval d (Val f)))
                  else Return None d)"
  by pat_completeness auto
termination
proof -
  have not_nil: "\<not> IsNil dst" if "KindV dst = Ptr" "KindV (Elem dst) = Struct" for dst
    using that by (cases dst rule: Elem.cases) auto
  have fields_smaller: "size_list size (structFields (Elem dst)) + 2 < vsize dst"
    if "KindV (Elem dst) = Struct" for dst
  proof -
    from that obtain t te x a r where d: "dst = Value t (VPtr te (Some x)) a r"
      by (cases dst rule: Elem.cases) auto
    with that obtain fs where "x = VStruct fs"
      by (cases x rule: kind_of.cases) auto
    with d show ?thesis by simp
  qed
  have pointer_smaller: "vsize p < size d + 2" if "Addr (FieldV dst d) = Some p" for dst d p
    using that by (cases dst; cases d) (auto split: if_splits)
  show ?thesis
    apply (relation "measure (\<lambda>x. case x of
        Inl (E, dst, src, cfg, prefix) \<Rightarrow> vsize dst
      | Inr (Inl (E, cfg, im, em, prefix, dst, src, ds, ss)) \<Rightarrow> size_list size ds + 2
      | Inr (Inr (E, cfg, im, em, prefix, dst, src, d, s)) \<Rightarrow> size d + 2)")
     apply simp
    apply (auto split: if_splits dest: not_nil fields_smaller pointer_smaller)
    done
qed

declare mergeValues.simps [simp del] mergeField.simps [simp del]

text \<open>\<^verbatim>\<open>Merge\<close>: the configuration is the first of the variadic ones, or the default.\<close>

definition Merge :: "env \<Rightarrow> iface \<Rightarrow> iface \<Rightarrow> Config list \<Rightarrow> Value outcome" where
  "Merge E dst src cfg =
     (let defaultConfig = \<lparr>Option = IncludeAll, Include = [], Exclude = []\<rparr>;
          defaultConfig = (if length cfg > 0 then cfg ! 0 else defaultConfig)
      in mergeValues E (ValueOf dst) (ValueOf src) defaultConfig [])"

section \<open>What the claims speak of\<close>

text \<open>A field passes the two filters when the include list is empty or selects its
  path, and the exclude set does not hold its path.\<close>

definition passesFilters :: "Config \<Rightarrow> boolmap \<Rightarrow> boolmap \<Rightarrow> string \<Rightarrow> bool" where
  "passesFilters cfg includeMap excludeMap fullFieldName =
     ((Include cfg = [] \<or> shouldInclude fullFieldName includeMap) \<and> \<not> lookup excludeMap fullFieldName)"

text \<open>A call returns an error: it neither panics nor returns \<^verbatim>\<open>nil\<close>.\<close>

definition returnsError :: "'a outcome \<Rightarrow> bool" where
  "returnsError out = (case out of Panic \<Rightarrow> False | Return None x \<Rightarrow> False | Return (Some e) x \<Rightarrow> True)"

text \<open>The destination is a pointer whose referent is a struct; the source is a struct.\<close>

fun ptrToStruct :: "iface \<Rightarrow> bool" where
  "ptrToStruct (Iface t (VPtr te (Some (VStruct fs)))) = True"
| "ptrToStruct _ = False"

fun isStruct :: "iface \<Rightarrow> bool" where
  "isStruct (Iface t (VStruct fs)) = True"
| "isStruct _ = False"

text \<open>
  What Go's typing gives of two values of one type, as far as the merge reads it: they
  have the same kind, and two structs have the same fields, in number, name, exportedness
  and type, holding values of one type in turn.
\<close>

function sameType :: "val \<Rightarrow> val \<Rightarrow> bool"
  and sameTypeFields :: "field list \<Rightarrow> field list \<Rightarrow> bool"
where
  "sameType x y =
     (case x of
        VStruct ds \<Rightarrow> (case y of VStruct ss \<Rightarrow> sameTypeFields ds ss | _ \<Rightarrow> False)
      | _ \<Rightarrow> kind_of x = kind_of y)"
| "sameTypeFields [] [] = True"
| "sameTypeFields [] (s # ss) = False"
| "sameTypeFields (d # ds) [] = False"
| "sameTypeFields (d # ds) (s # ss) =
     (Name d = Name s \<and> exported d = exported s \<and> ftype d = ftype s \<and>
      sameType (fval d) (fval s) \<and> sameTypeFields ds ss)"
  by pat_completeness auto
termination
proof -
  have smaller: "size (fval d) < size d" for d
    by (cases d) simp
  show ?thesis
    by (relation "measure (\<lambda>x. case x of Inl (x, y) \<Rightarrow> size x | Inr (ds, ss) \<Rightarrow> size_list size ds)")
      (auto intro: less_trans [OF smaller])
qed

text \<open>
  The walk of a record meets no override and no \<^verbatim>\<open>time.Time\<close>: the pointer type of no
  field's type implements \<^verbatim>\<open>Merger\<close> (the loop asks this of every field, before it
  asks whether the field is settable), and every exported field of struct kind, which the
  walk enters, is not a \<^verbatim>\<open>time.Time\<close> and is such a record in turn.
\<close>

function plainWalk :: "env \<Rightarrow> val \<Rightarrow> bool"
  and plainWalkFields :: "env \<Rightarrow> field list \<Rightarrow> bool"
where
  "plainWalk E x = (case x of VStruct fs \<Rightarrow> plainWalkFields E fs | _ \<Rightarrow> True)"
| "plainWalkFields E [] = True"
| "plainWalkFields E (f # fs) =
     (\<not> Implements E (CHR ''*'' # ftype f) \<and>
      (exported f \<and> kind_of (fval f) = Struct \<longrightarrow> ftype f \<noteq> ''time.Time'' \<and> plainWalk E (fval f)) \<and>
      plainWalkFields E fs)"
  by pat_completeness auto
termination
proof -
  have smaller: "size (fval d) < size d" for d
    by (cases d) simp
  show ?thesis
    by (relation "measure (\<lambda>x. case x of Inl (E, x) \<Rightarrow> size x | Inr (E, fs) \<Rightarrow> size_list size fs)")
      (auto intro: less_trans [OF smaller])
qed

text \<open>
  The result that claim C1 describes: the source field for field, leaves inside nested
  struct fields included, but for the unexported fields, which are the destination's.
\<close>

function expected :: "val \<Rightarrow> val \<Rightarrow> val"
  and expectedFields :: "field list \<Rightarrow> field list \<Rightarrow> field list"
where
  "expected x y =
     (case x of
        VStruct ds \<Rightarrow> (case y of VStruct ss \<Rightarrow> VStruct (expectedFields ds ss) | _ \<Rightarrow> y)
      | _ \<Rightarrow> y)"
| "expectedFields [] ss = []"
| "expectedFields (d # ds) [] = d # ds"
| "expectedFields (d # ds) (s # ss) =
     (if exported d then setval d (expected (fval d) (fval s)) else d) # expectedFields ds ss"
  by pat_completeness auto
termination
proof -
  have smaller: "size (fval d) < size d" for d
    by (cases d) simp
  show ?thesis
    by (relation "measure (\<lambda>x. case x of Inl (x, y) \<Rightarrow> size x | Inr (ds, ss) \<Rightarrow> size_list size ds)")
      (auto intro: less_trans [OF smaller])
qed

text \<open>
  The emptiness predicate of claim C2 and of the specification (4.1.1): length zero for a string, slice, map
  or array; false for a bool; zero for a signed or unsigned integer (a \<^verbatim>\<open>uintptr\<close> is one
  of Go's unsigned integer types) and for a float (either zero, \<open>+0\<close> or \<open>-0\<close>); nil for a
  pointer or an interface; never for any other kind.
\<close>

fun emptyValue :: "val \<Rightarrow> bool" where
  "emptyValue (VString s) = (length s = 0)"
| "emptyValue (VSlice None) = True"
| "emptyValue (VSlice (Some xs)) = (length xs = 0)"
| "emptyValue (VMap None) = True"
| "emptyValue (VMap (Some kvs)) = (length kvs = 0)"
| "emptyValue (VArray xs) = (length xs = 0)"
| "emptyValue (VBool b) = (\<not> b)"
| "emptyValue (VInt w i) = (i = 0)"
| "emptyValue (VUint w n) = (n = 0)"
| "emptyValue (VUintptr n) = (n = 0)"
| "emptyValue (VFloat32 w) = (w = 0 \<or> w = 0x80000000)"
| "emptyValue (VFloat64 w) = (w = 0 \<or> w = 0x8000000000000000)"
| "emptyValue (VPtr t p) = (p = None)"
| "emptyValue (VInterface p) = (p = None)"
| "emptyValue _ = False"

section \<open>The types of the package's tests\<close>

text \<open>\<^verbatim>\<open>Address\<close> and \<^verbatim>\<open>TestStruct\<close> of the test file, \<^verbatim>\<open>time.Time\<close> with its three
  unexported fields, and a pointer to a value as \<^verbatim>\<open>Merge\<close> receives it.\<close>

definition Address :: "string \<Rightarrow> string \<Rightarrow> string \<Rightarrow> val" where
  "Address street city country = VStruct
     [StructField ''Street'' True ''string'' (VString street),
      StructField ''City'' True ''string'' (VString city),
      StructField ''Country'' True ''string'' (VString country)]"

definition TestStruct :: "string \<Rightarrow> int \<Rightarrow> val \<Rightarrow> bool \<Rightarrow> nat \<Rightarrow> string \<Rightarrow> val" where
  "TestStruct name age address active count hidden = VStruct
     [StructField ''Name'' True ''string'' (VString name),
      StructField ''Age'' True ''int'' (VInt Word age),
      StructField ''Address'' True ''structmerge.Address'' address,
      StructField ''Active'' True ''bool'' (VBool active),
      StructField ''Count'' True ''uint'' (VUint Word count),
      StructField ''hidden'' False ''string'' (VString hidden)]"

definition timeTime :: "nat \<Rightarrow> int \<Rightarrow> val" where
  "timeTime wall ext = VStruct
     [StructField ''wall'' False ''uint64'' (VUint W64 wall),
      StructField ''ext'' False ''int64'' (VInt W64 ext),
      StructField ''loc'' False ''*time.Location'' (VPtr ''time.Location'' None)]"

definition ptrTo :: "tid \<Rightarrow> val \<Rightarrow> iface" where
  "ptrTo t x = Iface (CHR ''*'' # t) (VPtr t (Some x))"

text \<open>The test file's \<^verbatim>\<open>Plan\<close>: a \<^verbatim>\<open>Date\<close> and a \<^verbatim>\<open>json.RawMessage\<close>, a slice of
  bytes.\<close>

definition Plan :: "val \<Rightarrow> val list option \<Rightarrow> val" where
  "Plan date data = VStruct
     [StructField ''Date'' True ''structmerge.Date'' date,
      StructField ''Data'' True ''json.RawMessage'' (VSlice data)]"

text \<open>A program none of whose types implements \<^verbatim>\<open>Merger\<close>.\<close>

definition noMergers :: env where
  "noMergers = \<lparr>merger = (\<lambda>t. None), zero = (\<lambda>t. VStruct [])\<rparr>"

text \<open>
  The test file's \<^verbatim>\<open>type Date time.Time\<close>, whose method \<^verbatim>\<open>(*Date).Merge\<close> copies a
  source of type \<^verbatim>\<open>Date\<close> and returns \<^verbatim>\<open>ErrInvalidSource\<close> for any other; and a type
  \<^verbatim>\<open>Locked\<close> whose method \<^verbatim>\<open>(*Locked).Merge\<close> writes nothing and returns an error.
\<close>

definition dateMerge :: "val \<Rightarrow> Value \<Rightarrow> val \<times> MergeError option" where
  "dateMerge d src =
     (case src of
        NoValue \<Rightarrow> (d, Some ErrInvalidSource)
      | Value t y a r \<Rightarrow> if t = ''structmerge.Date'' then (y, None) else (d, Some ErrInvalidSource))"

definition lockedMerge :: "val \<Rightarrow> Value \<Rightarrow> val \<times> MergeError option" where
  "lockedMerge l src = (l, Some (ErrOther ''locked''))"

definition testMergers :: env where
  "testMergers =
     \<lparr>merger = (\<lambda>t. if t = ''*structmerge.Date'' then Some dateMerge
                    else if t = ''*structmerge.Locked'' then Some lockedMerge
                    else None),
      zero = (\<lambda>t. VStruct [])\<rparr>"

section \<open>Facts about the sets of paths and the strings\<close>

lemma lookup_assign: "lookup (assign m k b) k' = (if k' = k then b else lookup m k')"
  by (induction m k b rule: assign.induct) auto

lemma lookup_makeSet: "lookup (makeSet m xs) k = (k \<in> set xs \<or> lookup m k)"
  by (induction m xs rule: makeSet.induct) (auto simp: lookup_assign)

lemma anyKey_assign:
  "anyKeyHasPrefix (assign m k b) p = (HasPrefix k p \<or> anyKeyHasPrefix m p)"
  by (induction m k b rule: assign.induct) auto

lemma anyKey_makeSet:
  "anyKeyHasPrefix (makeSet m xs) p = ((\<exists>key \<in> set xs. HasPrefix key p) \<or> anyKeyHasPrefix m p)"
  by (induction m xs rule: makeSet.induct) (auto simp: anyKey_assign)

lemma HasPrefix_iff: "HasPrefix s p = (\<exists>rest. s = p @ rest)"
proof
  assume "HasPrefix s p"
  then have "s = p @ drop (length p) s"
    by (metis HasPrefix_def append_take_drop_id)
  then show "\<exists>rest. s = p @ rest" ..
next
  assume "\<exists>rest. s = p @ rest"
  then show "HasPrefix s p" by (auto simp: HasPrefix_def)
qed

lemma Contains_dot: "Contains s ''.'' = (CHR ''.'' \<in> set s)"
  by (induction s) (auto simp: HasPrefix_def)

section \<open>Facts about the loop\<close>

lemma mergeFields_length:
  "mergeFields E cfg im em prefix dst src ds ss = Return e r \<Longrightarrow> length r = length ds"
proof (induction ds arbitrary: ss r e)
  case Nil
  then show ?case by simp
next
  case (Cons d ds)
  then show ?case
    by (cases ss) (auto split: outcome.splits option.splits)
qed

text \<open>When the loop returns, field \<open>i\<close> of the result is what the body made of field
  \<open>i\<close>, or is untouched (the loop returned an error before it).\<close>

lemma mergeFields_nth:
  "mergeFields E cfg im em prefix dst src ds ss = Return e r \<Longrightarrow> i < length ds \<Longrightarrow>
     r ! i = ds ! i \<or> (\<exists>e'. mergeField E cfg im em prefix dst src (ds ! i) (ss ! i) = Return e' (r ! i))"
proof (induction ds arbitrary: ss r e i)
  case Nil
  then show ?case by simp
next
  case (Cons d ds)
  show ?case
  proof (cases ss)
    case Nil
    with Cons.prems show ?thesis by simp
  next
    case (Cons s ss')
    show ?thesis
    proof (cases i)
      case 0
      with Cons.prems Cons show ?thesis
        by (auto split: outcome.splits option.splits)
    next
      case (Suc j)
      with Cons.prems Cons Cons.IH [of ss' _ _ j] show ?thesis
        by (auto split: outcome.splits option.splits)
    qed
  qed
qed

lemma mergeFields_nth_success:
  "mergeFields E cfg im em prefix dst src ds ss = Return None r \<Longrightarrow> i < length ds \<Longrightarrow>
     mergeField E cfg im em prefix dst src (ds ! i) (ss ! i) = Return None (r ! i)"
proof (induction ds arbitrary: ss r i)
  case Nil
  then show ?case by simp
next
  case (Cons d ds)
  show ?case
  proof (cases ss)
    case Nil
    with Cons.prems show ?thesis by simp
  next
    case (Cons s ss')
    show ?thesis
    proof (cases i)
      case 0
      with Cons.prems Cons show ?thesis
        by (auto split: outcome.splits option.splits)
    next
      case (Suc j)
      with Cons.prems Cons Cons.IH [of ss' _ j] show ?thesis
        by (auto split: outcome.splits option.splits)
    qed
  qed
qed

section \<open>Facts about one call and one iteration\<close>

lemma mergeValues_timeTime:
  assumes "kind_of x = Struct" "kind_of y = Struct"
  shows "mergeValues E (Value t (VPtr ''time.Time'' (Some x)) a False) (Value ''time.Time'' y a' False) cfg prefix
    = Return None (Value t (VPtr ''time.Time'' (Some y)) a False)"
  using assms by (simp add: mergeValues.simps CanInterface_def)

lemma mergeValues_override:
  assumes "kind_of x = Struct" "kind_of y = Struct" "te \<noteq> ''time.Time''"
    "merger E (CHR ''*'' # te) = Some m"
  shows "mergeValues E (Value t (VPtr te (Some x)) a False) (Value te y a' False) cfg prefix
    = Return (snd (m x (Value te y a' False)))
        (Value t (VPtr te (Some (fst (m x (Value te y a' False))))) a False)"
  using assms by (simp add: mergeValues.simps CanInterface_def CanAddr_def Implements_def)

lemma mergeField_override:
  assumes "passesFilters cfg im em (prefix @ Name d)"
    and "merger E (CHR ''*'' # ftype d) = Some m"
    and "dst = Value t x True False"
  shows "mergeField E cfg im em prefix dst src d s =
     (if exported d then Return None (setval d (fst (m (fval d) (FieldV src s)))) else Panic)"
  using assms
  by (auto simp add: mergeField.simps passesFilters_def Let_def CanAddr_def Implements_def)

lemma mergeField_timeTime:
  assumes "passesFilters cfg im em (prefix @ Name d)"
    and "\<not> Implements E (CHR ''*'' # ftype d)"
    and "dst = Value t x True False" "src = Value t' x' a' False"
    and "exported d" "exported s" "ftype d = ''time.Time''" "ftype s = ''time.Time''"
    and "kind_of (fval d) = Struct" "kind_of (fval s) = Struct"
  shows "mergeField E cfg im em prefix dst src d s = Return None (setval d (fval s))"
  using assms
  by (auto simp add: mergeField.simps passesFilters_def Let_def CanAddr_def CanSet_def
      mergeValues_timeTime writeBack_def)

section \<open>A nil destination\<close>

text \<open>
  Claim C8 says that \<^verbatim>\<open>Merge\<close> makes a fresh zero struct for a destination that is a nil
  pointer to a struct type and merges into it. The code does not: the first check reads
  \<^verbatim>\<open>dst.Elem().Kind()\<close>, \<^verbatim>\<open>Elem\<close> of a nil pointer is the zero Value, whose kind is
  \<^verbatim>\<open>Invalid\<close>, so every nil pointer is answered with \<^verbatim>\<open>ErrInvalidDestination\<close>
  and the lines that call \<^verbatim>\<open>reflect.New\<close> are never reached.
\<close>

theorem Merge_nil_destination_invalid:
  "Merge E (Iface t (VPtr te None)) src cfg =
     Return (Some ErrInvalidDestination) (ValueOf (Iface t (VPtr te None)))"
  by (simp add: Merge_def mergeValues.simps)

section \<open>\<^verbatim>\<open>time.Time\<close>\<close>

text \<open>
  Claim C9: a merge whose record type is \<^verbatim>\<open>time.Time\<close> overwrites the destination with
  the source and returns at once, whatever the configuration and the prefix: as the call
  \<open>mergeValues\<close> on a pointer that is not read-only (the top-level destination, and the
  address of a settable field), as \<^verbatim>\<open>Merge\<close> itself, and as the iteration of the loop on
  a settable field of type \<^verbatim>\<open>time.Time\<close> that passes the filters and has no override.
  No policy and no emptiness test takes part.
\<close>

theorem timeTime_copied_wholesale:
  "(kind_of x = Struct \<and> kind_of y = Struct \<longrightarrow>
      mergeValues E (Value t (VPtr ''time.Time'' (Some x)) a False) (Value ''time.Time'' y a' False) cfg prefix
        = Return None (Value t (VPtr ''time.Time'' (Some y)) a False)) \<and>
   (kind_of x = Struct \<and> kind_of y = Struct \<longrightarrow>
      Merge E (Iface t (VPtr ''time.Time'' (Some x))) (Iface ''time.Time'' y) cfgs
        = Return None (ValueOf (Iface t (VPtr ''time.Time'' (Some y))))) \<and>
   (passesFilters cfg im em (prefix @ Name d) \<and> \<not> Implements E (CHR ''*'' # ftype d) \<and>
    CanSet (FieldV dst d) \<and> CanInterface (FieldV src s) \<and>
    ftype d = ''time.Time'' \<and> ftype s = ''time.Time'' \<and>
    kind_of (fval d) = Struct \<and> kind_of (fval s) = Struct \<longrightarrow>
      mergeField E cfg im em prefix dst src d s = Return None (setval d (fval s)))"
proof (intro conjI impI)
  assume "kind_of x = Struct \<and> kind_of y = Struct"
  then show "mergeValues E (Value t (VPtr ''time.Time'' (Some x)) a False) (Value ''time.Time'' y a' False) cfg prefix
        = Return None (Value t (VPtr ''time.Time'' (Some y)) a False)"
    by (simp add: mergeValues_timeTime)
next
  assume "kind_of x = Struct \<and> kind_of y = Struct"
  then show "Merge E (Iface t (VPtr ''time.Time'' (Some x))) (Iface ''time.Time'' y) cfgs
        = Return None (ValueOf (Iface t (VPtr ''time.Time'' (Some y))))"
    by (simp add: Merge_def mergeValues_timeTime)
next
  assume h: "passesFilters cfg im em (prefix @ Name d) \<and> \<not> Implements E (CHR ''*'' # ftype d) \<and>
    CanSet (FieldV dst d) \<and> CanInterface (FieldV src s) \<and>
    ftype d = ''time.Time'' \<and> ftype s = ''time.Time'' \<and>
    kind_of (fval d) = Struct \<and> kind_of (fval s) = Struct"
  then obtain t x where dst: "dst = Value t x True False" and "exported d"
    by (cases dst) (auto simp: CanSet_def)
  moreover from h obtain t' x' a' where "src = Value t' x' a' False" and "exported s"
    by (cases src) (auto simp: CanInterface_def)
  ultimately show "mergeField E cfg im em prefix dst src d s = Return None (setval d (fval s))"
    using h by (intro mergeField_timeTime) auto
qed

text \<open>Under \<^verbatim>\<open>ExcludeEmpty\<close> a zero source \<^verbatim>\<open>time.Time\<close> replaces a non-zero destination,
  at the top level and as a field.\<close>

theorem timeTime_copied_wholesale_witness:
  "Merge noMergers (ptrTo ''time.Time'' (timeTime 7 8)) (Iface ''time.Time'' (timeTime 0 0))
      [\<lparr>Option = ExcludeEmpty, Include = [], Exclude = []\<rparr>]
     = Return None (ValueOf (ptrTo ''time.Time'' (timeTime 0 0))) \<and>
   mergeField noMergers \<lparr>Option = ExcludeEmpty, Include = [], Exclude = []\<rparr> [] [] []
      (Value ''main.Event'' (VStruct [StructField ''When'' True ''time.Time'' (timeTime 7 8)]) True False)
      (Value ''main.Event'' (VStruct [StructField ''When'' True ''time.Time'' (timeTime 0 0)]) False False)
      (StructField ''When'' True ''time.Time'' (timeTime 7 8))
      (StructField ''When'' True ''time.Time'' (timeTime 0 0))
     = Return None (StructField ''When'' True ''time.Time'' (timeTime 0 0))"
  using timeTime_copied_wholesale [where x = "timeTime 7 8" and y = "timeTime 0 0" and E = noMergers
      and t = "''*time.Time''" and cfgs = "[\<lparr>Option = ExcludeEmpty, Include = [], Exclude = []\<rparr>]"
      and cfg = "\<lparr>Option = ExcludeEmpty, Include = [], Exclude = []\<rparr>" and im = "[]" and em = "[]"
      and prefix = "[]"
      and dst = "Value ''main.Event'' (VStruct [StructField ''When'' True ''time.Time'' (timeTime 7 8)]) True False"
      and src = "Value ''main.Event'' (VStruct [StructField ''When'' True ''time.Time'' (timeTime 0 0)]) False False"
      and d = "StructField ''When'' True ''time.Time'' (timeTime 7 8)"
      and s = "StructField ''When'' True ''time.Time'' (timeTime 0 0)"]
  by (simp add: ptrTo_def timeTime_def noMergers_def passesFilters_def Implements_def CanSet_def
      CanInterface_def setval_def)

section \<open>The \<^verbatim>\<open>Merger\<close> override\<close>

text \<open>
  Claim C7: when the pointer type of the whole destination record implements
  \<^verbatim>\<open>Merger\<close>, \<^verbatim>\<open>Merge\<close> returns what the override returns, its error and what it wrote;
  when the override is that of a settable field that passes the filters, the iteration
  drops the override's error: the loop goes on with the remaining fields, and its result
  is theirs, with what the override wrote in front.
\<close>

theorem Merger_error_propagated_or_swallowed:
  "(kind_of x = Struct \<and> kind_of y = Struct \<and> te \<noteq> ''time.Time'' \<and>
    merger E (CHR ''*'' # te) = Some m \<longrightarrow>
      Merge E (Iface t (VPtr te (Some x))) (Iface te y) cfgs
        = Return (snd (m x (ValueOf (Iface te y))))
            (ValueOf (Iface t (VPtr te (Some (fst (m x (ValueOf (Iface te y))))))))) \<and>
   (passesFilters cfg im em (prefix @ Name d) \<and> merger E (CHR ''*'' # ftype d) = Some m' \<and>
    CanSet (FieldV dst d) \<longrightarrow>
      mergeFields E cfg im em prefix dst src (d # ds) (s # ss) =
        (case mergeFields E cfg im em prefix dst src ds ss of
           Panic \<Rightarrow> Panic
         | Return err r \<Rightarrow> Return err (setval d (fst (m' (fval d) (FieldV src s))) # r)))"
proof (intro conjI impI)
  assume "kind_of x = Struct \<and> kind_of y = Struct \<and> te \<noteq> ''time.Time'' \<and>
    merger E (CHR ''*'' # te) = Some m"
  then show "Merge E (Iface t (VPtr te (Some x))) (Iface te y) cfgs
        = Return (snd (m x (ValueOf (Iface te y))))
            (ValueOf (Iface t (VPtr te (Some (fst (m x (ValueOf (Iface te y))))))))"
    by (simp add: Merge_def mergeValues_override)
next
  assume h: "passesFilters cfg im em (prefix @ Name d) \<and> merger E (CHR ''*'' # ftype d) = Some m' \<and>
    CanSet (FieldV dst d)"
  then obtain t x where "dst = Value t x True False" and "exported d"
    by (cases dst) (auto simp: CanSet_def)
  with h have "mergeField E cfg im em prefix dst src d s
      = Return None (setval d (fst (m' (fval d) (FieldV src s))))"
    by (simp add: mergeField_override)
  then show "mergeFields E cfg im em prefix dst src (d # ds) (s # ss) =
        (case mergeFields E cfg im em prefix dst src ds ss of
           Panic \<Rightarrow> Panic
         | Return err r \<Rightarrow> Return err (setval d (fst (m' (fval d) (FieldV src s))) # r))"
    by simp
qed

text \<open>The error of \<^verbatim>\<open>(*Locked).Merge\<close> is the result of merging two \<^verbatim>\<open>Locked\<close>, and is
  lost when \<^verbatim>\<open>Locked\<close> is the type of a field: the loop succeeds.\<close>

theorem Merger_error_propagated_or_swallowed_witness:
  "Merge testMergers (ptrTo ''structmerge.Locked'' (VStruct [])) (Iface ''structmerge.Locked'' (VStruct [])) []
     = Return (Some (ErrOther ''locked'')) (ValueOf (ptrTo ''structmerge.Locked'' (VStruct []))) \<and>
   mergeFields testMergers \<lparr>Option = IncludeAll, Include = [], Exclude = []\<rparr> [] [] []
      (Value ''main.Box'' (VStruct [StructField ''Lock'' True ''structmerge.Locked'' (VStruct [])]) True False)
      (Value ''main.Box'' (VStruct [StructField ''Lock'' True ''structmerge.Locked'' (VStruct [])]) False False)
      [StructField ''Lock'' True ''structmerge.Locked'' (VStruct [])]
      [StructField ''Lock'' True ''structmerge.Locked'' (VStruct [])]
     = Return None [StructField ''Lock'' True ''structmerge.Locked'' (VStruct [])]"
  using Merger_error_propagated_or_swallowed [where x = "VStruct []" and y = "VStruct []"
      and te = "''structmerge.Locked''" and t = "''*structmerge.Locked''" and E = testMergers
      and m = lockedMerge and m' = lockedMerge and cfgs = "[]"
      and cfg = "\<lparr>Option = IncludeAll, Include = [], Exclude = []\<rparr>" and im = "[]" and em = "[]"
      and prefix = "[]"
      and dst = "Value ''main.Box'' (VStruct [StructField ''Lock'' True ''structmerge.Locked'' (VStruct [])]) True False"
      and src = "Value ''main.Box'' (VStruct [StructField ''Lock'' True ''structmerge.Locked'' (VStruct [])]) False False"
      and d = "StructField ''Lock'' True ''structmerge.Locked'' (VStruct [])"
      and s = "StructField ''Lock'' True ''structmerge.Locked'' (VStruct [])"
      and ds = "[]" and ss = "[]"]
  by (simp add: ptrTo_def testMergers_def lockedMerge_def passesFilters_def CanSet_def setval_def)

text \<open>
  Claim C10: an unexported field whose pointer type implements \<^verbatim>\<open>Merger\<close> makes the
  iteration panic, since \<^verbatim>\<open>dstField.Addr().Interface()\<close> comes before the test of
  \<^verbatim>\<open>CanSet\<close>; so \<^verbatim>\<open>Merge\<close> panics on a struct (neither a \<^verbatim>\<open>time.Time\<close> nor itself
  overridden) whose first field is one.
\<close>

theorem unexported_Merger_field_panics:
  "(passesFilters cfg im em (prefix @ Name d) \<and> Implements E (CHR ''*'' # ftype d) \<and>
    CanSet dst \<and> \<not> exported d \<longrightarrow>
      mergeField E cfg im em prefix dst src d s = Panic) \<and>
   (te \<noteq> ''time.Time'' \<and> \<not> Implements E (CHR ''*'' # te) \<and>
    Implements E (CHR ''*'' # ftype d) \<and> \<not> exported d \<longrightarrow>
      Merge E (Iface t (VPtr te (Some (VStruct (d # ds))))) (Iface te (VStruct (s # ss))) [] = Panic)"
proof (intro conjI impI)
  assume h: "passesFilters cfg im em (prefix @ Name d) \<and> Implements E (CHR ''*'' # ftype d) \<and>
    CanSet dst \<and> \<not> exported d"
  then obtain t x where "dst = Value t x True False"
    by (cases dst) (auto simp: CanSet_def)
  moreover from h obtain m where "merger E (CHR ''*'' # ftype d) = Some m"
    by (auto simp: Implements_def)
  ultimately show "mergeField E cfg im em prefix dst src d s = Panic"
    using h by (simp add: mergeField_override)
next
  assume h: "te \<noteq> ''time.Time'' \<and> \<not> Implements E (CHR ''*'' # te) \<and>
    Implements E (CHR ''*'' # ftype d) \<and> \<not> exported d"
  then obtain m where "merger E (CHR ''*'' # ftype d) = Some m"
    by (auto simp: Implements_def)
  then have "mergeField E \<lparr>Option = IncludeAll, Include = [], Exclude = []\<rparr> [] [] []
      (Value te (VStruct (d # ds)) True False) (Value te (VStruct (s # ss)) False False) d s = Panic"
    using h by (simp add: mergeField_override passesFilters_def)
  with h show "Merge E (Iface t (VPtr te (Some (VStruct (d # ds))))) (Iface te (VStruct (s # ss))) [] = Panic"
    by (simp add: Merge_def mergeValues.simps CanInterface_def CanAddr_def)
qed

text \<open>A struct with an unexported field \<^verbatim>\<open>date\<close> of the test file's type \<^verbatim>\<open>Date\<close>.\<close>

theorem unexported_Merger_field_panics_witness:
  "Merge testMergers
      (ptrTo ''main.Plan'' (VStruct [StructField ''date'' False ''structmerge.Date'' (timeTime 1 2)]))
      (Iface ''main.Plan'' (VStruct [StructField ''date'' False ''structmerge.Date'' (timeTime 3 4)])) []
     = Panic"
  using unexported_Merger_field_panics [where te = "''main.Plan''" and t = "''*main.Plan''"
      and E = testMergers and d = "StructField ''date'' False ''structmerge.Date'' (timeTime 1 2)"
      and s = "StructField ''date'' False ''structmerge.Date'' (timeTime 3 4)" and ds = "[]" and ss = "[]"]
  by (simp add: ptrTo_def testMergers_def Implements_def)

section \<open>The body of the loop, case by case\<close>

lemma mergeField_not_included:
  "Include cfg \<noteq> [] \<Longrightarrow> \<not> shouldInclude (prefix @ Name d) im \<Longrightarrow>
   mergeField E cfg im em prefix dst src d s = Return None d"
  by (simp add: mergeField.simps Let_def)

lemma mergeField_excluded:
  "lookup em (prefix @ Name d) \<Longrightarrow> mergeField E cfg im em prefix dst src d s = Return None d"
  by (simp add: mergeField.simps Let_def)

lemma Set_Val: "Set v w = Some f \<Longrightarrow> Val f = Val w \<and> w \<noteq> NoValue"
  by (cases v; cases w) (auto split: if_splits)

lemma mergeField_leaf:
  assumes "passesFilters cfg im em (prefix @ Name d)"
    and "\<not> Implements E (CHR ''*'' # ftype d)"
    and "CanSet (FieldV dst d)"
    and "kind_of (fval d) \<noteq> Struct"
  shows "mergeField E cfg im em prefix dst src d s =
     (if (if Option cfg = ExcludeEmpty then \<not> isZero (FieldV src s)
          else if Option cfg = OverwriteEmpty then isZero (FieldV dst d)
          else True) \<or> Option cfg = IncludeAll
      then (case Set (FieldV dst d) (FieldV src s) of
              None \<Rightarrow> Panic
            | Some f \<Rightarrow> Return None (setval d (Val f)))
      else Return None d)"
  using assms
  by (cases dst) (auto simp add: mergeField.simps Let_def passesFilters_def CanSet_def CanAddr_def)

lemma Val_FieldV: "FieldV src s \<noteq> NoValue \<Longrightarrow> Val (FieldV src s) = fval s"
  by (cases src) auto

text \<open>Evaluating the merge on given values.\<close>

lemmas merge_eval =
  Merge_def mergeValues.simps mergeField.simps Let_def CanInterface_def CanAddr_def CanSet_def
  Implements_def shouldInclude_def HasPrefix_def setval_def writeBack_def
  IncludeAll_def ExcludeEmpty_def OverwriteEmpty_def

section \<open>The exclude filter\<close>

text \<open>
  Claim C5: a field whose qualified path is in the exclude list is skipped: when the loop
  over a record returns, with an error or without, the field is as it was. This holds
  for every policy, every include map (also one that selects the path), and whether or
  not the field's type has an override.
\<close>

theorem excluded_field_unchanged:
  assumes "mergeFields E cfg im (makeSet [] (Exclude cfg)) prefix dst src ds ss = Return e r"
    and "i < length ds"
    and "prefix @ Name (ds ! i) \<in> set (Exclude cfg)"
  shows "r ! i = ds ! i"
proof -
  have "lookup (makeSet [] (Exclude cfg)) (prefix @ Name (ds ! i))"
    using assms(3) by (simp add: lookup_makeSet)
  then have "mergeField E cfg im (makeSet [] (Exclude cfg)) prefix dst src (ds ! i) (ss ! i)
      = Return None (ds ! i)"
    by (rule mergeField_excluded)
  with mergeFields_nth [OF assms(1,2)] show ?thesis by auto
qed

text \<open>The test \<^verbatim>\<open>Exclude\<close> of the test file, with \<^verbatim>\<open>Age\<close> also on the include list:
  \<^verbatim>\<open>Age\<close> (field 1) keeps 30.\<close>

theorem excluded_field_unchanged_witness:
  "mergeFields noMergers
      \<lparr>Option = IncludeAll, Include = [''Age'', ''Count''], Exclude = [''Name'', ''Age'', ''Address.City'']\<rparr>
      (makeSet [] [''Age'', ''Count'']) (makeSet [] [''Name'', ''Age'', ''Address.City'']) []
      (Value ''structmerge.TestStruct''
         (TestStruct ''Alice'' 30 (Address ''123 Old St'' ''Old City'' '''') False 10 ''old'') True False)
      (Value ''structmerge.TestStruct''
         (TestStruct ''Bob'' 25 (Address ''456 New St'' ''New City'' ''New Country'') True 5 ''new'') False False)
      [StructField ''Name'' True ''string'' (VString ''Alice''),
       StructField ''Age'' True ''int'' (VInt Word 30),
       StructField ''Count'' True ''uint'' (VUint Word 10)]
      [StructField ''Name'' True ''string'' (VString ''Bob''),
       StructField ''Age'' True ''int'' (VInt Word 25),
       StructField ''Count'' True ''uint'' (VUint Word 5)]
     = Return None
        [StructField ''Name'' True ''string'' (VString ''Alice''),
         StructField ''Age'' True ''int'' (VInt Word 30),
         StructField ''Count'' True ''uint'' (VUint Word 5)] \<and>
   [StructField ''Name'' True ''string'' (VString ''Alice''),
    StructField ''Age'' True ''int'' (VInt Word 30),
    StructField ''Count'' True ''uint'' (VUint Word 5)] ! 1
     = StructField ''Age'' True ''int'' (VInt Word 30)"
proof -
  let ?cfg = "\<lparr>Option = IncludeAll, Include = [''Age'', ''Count''],
      Exclude = [''Name'', ''Age'', ''Address.City'']\<rparr>"
  have run: "mergeFields noMergers ?cfg
      (makeSet [] [''Age'', ''Count'']) (makeSet [] (Exclude ?cfg)) []
      (Value ''structmerge.TestStruct''
         (TestStruct ''Alice'' 30 (Address ''123 Old St'' ''Old City'' '''') False 10 ''old'') True False)
      (Value ''structmerge.TestStruct''
         (TestStruct ''Bob'' 25 (Address ''456 New St'' ''New City'' ''New Country'') True 5 ''new'') False False)
      [StructField ''Name'' True ''string'' (VString ''Alice''),
       StructField ''Age'' True ''int'' (VInt Word 30),
       StructField ''Count'' True ''uint'' (VUint Word 10)]
      [StructField ''Name'' True ''string'' (VString ''Bob''),
       StructField ''Age'' True ''int'' (VInt Word 25),
       StructField ''Count'' True ''uint'' (VUint Word 5)]
     = Return None
        [StructField ''Name'' True ''string'' (VString ''Alice''),
         StructField ''Age'' True ''int'' (VInt Word 30),
         StructField ''Count'' True ''uint'' (VUint Word 5)]"
    by (simp add: merge_eval noMergers_def)
  from excluded_field_unchanged [OF run, of 1] run show ?thesis by simp
qed

section \<open>The include filter\<close>

text \<open>
  Claim C4: with a non-empty include list, \<open>shouldInclude\<close> holds of a path exactly when
  the path is on the list, or the path has no dot and is a prefix, as a plain string, of
  some entry of the list; a field for which it fails is skipped (it is as it was when the
  loop returns). With the include list \<^verbatim>\<open>["Address.Street"]\<close>, on the values of the test
  file: \<^verbatim>\<open>Address\<close> is entered, \<^verbatim>\<open>Street\<close> is merged, \<^verbatim>\<open>City\<close> and \<^verbatim>\<open>Country\<close>
  and every other field keep the destination's values.
\<close>

theorem include_filter:
  "(shouldInclude p (makeSet [] inc) \<longleftrightarrow>
      p \<in> set inc \<or> (CHR ''.'' \<notin> set p \<and> (\<exists>key \<in> set inc. \<exists>rest. key = p @ rest))) \<and>
   (mergeFields E cfg (makeSet [] (Include cfg)) em prefix dst src ds ss = Return e r \<and>
    i < length ds \<and> Include cfg \<noteq> [] \<and>
    \<not> shouldInclude (prefix @ Name (ds ! i)) (makeSet [] (Include cfg)) \<longrightarrow>
      r ! i = ds ! i) \<and>
   Merge noMergers
      (ptrTo ''structmerge.TestStruct''
         (TestStruct ''Alice'' 30 (Address ''123 Old St'' ''Old City'' '''') False 10 ''old''))
      (Iface ''structmerge.TestStruct''
         (TestStruct ''Bob'' 25 (Address ''456 New St'' ''New City'' ''New Country'') True 5 ''new''))
      [\<lparr>Option = IncludeAll, Include = [''Address.Street''], Exclude = []\<rparr>]
    = Return None (ValueOf (ptrTo ''structmerge.TestStruct''
         (TestStruct ''Alice'' 30 (Address ''456 New St'' ''Old City'' '''') False 10 ''old'')))"
proof (intro conjI impI)
  show "shouldInclude p (makeSet [] inc) \<longleftrightarrow>
      p \<in> set inc \<or> (CHR ''.'' \<notin> set p \<and> (\<exists>key \<in> set inc. \<exists>rest. key = p @ rest))"
    by (auto simp: shouldInclude_def lookup_makeSet anyKey_makeSet Contains_dot HasPrefix_iff)
next
  assume h: "mergeFields E cfg (makeSet [] (Include cfg)) em prefix dst src ds ss = Return e r \<and>
    i < length ds \<and> Include cfg \<noteq> [] \<and>
    \<not> shouldInclude (prefix @ Name (ds ! i)) (makeSet [] (Include cfg))"
  then have "mergeField E cfg (makeSet [] (Include cfg)) em prefix dst src (ds ! i) (ss ! i)
      = Return None (ds ! i)"
    by (simp add: mergeField_not_included)
  moreover from h have "r ! i = ds ! i \<or>
      (\<exists>e'. mergeField E cfg (makeSet [] (Include cfg)) em prefix dst src (ds ! i) (ss ! i)
         = Return e' (r ! i))"
    by (intro mergeFields_nth) auto
  ultimately show "r ! i = ds ! i" by auto
next
  show "Merge noMergers
      (ptrTo ''structmerge.TestStruct''
         (TestStruct ''Alice'' 30 (Address ''123 Old St'' ''Old City'' '''') False 10 ''old''))
      (Iface ''structmerge.TestStruct''
         (TestStruct ''Bob'' 25 (Address ''456 New St'' ''New City'' ''New Country'') True 5 ''new''))
      [\<lparr>Option = IncludeAll, Include = [''Address.Street''], Exclude = []\<rparr>]
    = Return None (ValueOf (ptrTo ''structmerge.TestStruct''
         (TestStruct ''Alice'' 30 (Address ''456 New St'' ''Old City'' '''') False 10 ''old'')))"
    by (simp add: merge_eval ptrTo_def TestStruct_def Address_def noMergers_def)
qed

text \<open>Inside \<^verbatim>\<open>Address\<close> (prefix \<^verbatim>\<open>"Address."\<close>), with \<^verbatim>\<open>Address.Street\<close> on the list:
  \<^verbatim>\<open>City\<close> (field 1) is not selected and keeps its value, \<^verbatim>\<open>Street\<close> is selected; at
  the top level \<^verbatim>\<open>Address\<close> is selected as a prefix of the entry.\<close>

theorem include_filter_witness:
  "shouldInclude ''Address'' (makeSet [] [''Address.Street'']) \<and>
   shouldInclude ''Address.Street'' (makeSet [] [''Address.Street'']) \<and>
   \<not> shouldInclude ''Address.City'' (makeSet [] [''Address.Street'']) \<and>
   mergeFields noMergers \<lparr>Option = IncludeAll, Include = [''Address.Street''], Exclude = []\<rparr>
      (makeSet [] [''Address.Street'']) [] ''Address.''
      (Value ''structmerge.Address'' (Address ''123 Old St'' ''Old City'' '''') True False)
      (Value ''structmerge.Address'' (Address ''456 New St'' ''New City'' ''New Country'') False False)
      [StructField ''Street'' True ''string'' (VString ''123 Old St''),
       StructField ''City'' True ''string'' (VString ''Old City'')]
      [StructField ''Street'' True ''string'' (VString ''456 New St''),
       StructField ''City'' True ''string'' (VString ''New City'')]
     = Return None
        [StructField ''Street'' True ''string'' (VString ''456 New St''),
         StructField ''City'' True ''string'' (VString ''Old City'')] \<and>
   [StructField ''Street'' True ''string'' (VString ''456 New St''),
    StructField ''City'' True ''string'' (VString ''Old City'')] ! 1
     = StructField ''City'' True ''string'' (VString ''Old City'')"
proof -
  let ?cfg = "\<lparr>Option = IncludeAll, Include = [''Address.Street''], Exclude = []\<rparr>"
  let ?ds = "[StructField ''Street'' True ''string'' (VString ''123 Old St''),
       StructField ''City'' True ''string'' (VString ''Old City'')]"
  let ?r = "[StructField ''Street'' True ''string'' (VString ''456 New St''),
       StructField ''City'' True ''string'' (VString ''Old City'')]"
  note inst = include_filter [where cfg = ?cfg and E = noMergers and em = "[]" and prefix = "''Address.''"
      and dst = "Value ''structmerge.Address'' (Address ''123 Old St'' ''Old City'' '''') True False"
      and src = "Value ''structmerge.Address'' (Address ''456 New St'' ''New City'' ''New Country'') False False"
      and ds = ?ds
      and ss = "[StructField ''Street'' True ''string'' (VString ''456 New St''),
                 StructField ''City'' True ''string'' (VString ''New City'')]"
      and e = None and r = ?r and i = 1]
  have run: "mergeFields noMergers ?cfg (makeSet [] (Include ?cfg)) [] ''Address.''
      (Value ''structmerge.Address'' (Address ''123 Old St'' ''Old City'' '''') True False)
      (Value ''structmerge.Address'' (Address ''456 New St'' ''New City'' ''New Country'') False False)
      ?ds
      [StructField ''Street'' True ''string'' (VString ''456 New St''),
       StructField ''City'' True ''string'' (VString ''New City'')]
     = Return None ?r"
    by (simp add: merge_eval noMergers_def)
  have a: "shouldInclude ''Address'' (makeSet [] [''Address.Street''])"
    using inst [where p = "''Address''" and inc = "[''Address.Street'']"] by simp
  have b: "shouldInclude ''Address.Street'' (makeSet [] [''Address.Street''])"
    using inst [where p = "''Address.Street''" and inc = "[''Address.Street'']"] by simp
  have c: "\<not> shouldInclude ''Address.City'' (makeSet [] [''Address.Street''])"
    using inst [where p = "''Address.City''" and inc = "[''Address.Street'']"] by simp
  have "?r ! 1 = ?ds ! 1"
    using inst [where p = "''Address.City''" and inc = "[''Address.Street'']"] run c by simp
  with a b c run show ?thesis by simp
qed

section \<open>The policies on a leaf field\<close>

lemma float32_zero_bits: "(take_bit 31 (w::32 word) = 0) = (w = 0 \<or> w = 0x80000000)"
proof -
  have lt: "unat w < 2 ^ 32" using unsigned_less [of w, where ?'a = nat] by simp
  have "(take_bit 31 w = 0) = (unat (take_bit 31 w) = 0)"
    by (simp add: unsigned_eq_0_iff)
  also have "\<dots> = (unat w mod 2 ^ 31 = 0)"
    by (simp only: unsigned_take_bit_eq) (simp add: take_bit_eq_mod)
  also have "\<dots> = (unat w = 0 \<or> unat w = 2 ^ 31)"
    using lt by auto
  also have "\<dots> = (w = 0 \<or> w = 0x80000000)"
    by (simp add: word_unat_eq_iff)
  finally show ?thesis .
qed

lemma float64_zero_bits: "(take_bit 63 (w::64 word) = 0) = (w = 0 \<or> w = 0x8000000000000000)"
proof -
  have lt: "unat w < 2 ^ 64" using unsigned_less [of w, where ?'a = nat] by simp
  have "(take_bit 63 w = 0) = (unat (take_bit 63 w) = 0)"
    by (simp add: unsigned_eq_0_iff)
  also have "\<dots> = (unat w mod 2 ^ 63 = 0)"
    by (simp only: unsigned_take_bit_eq) (simp add: take_bit_eq_mod)
  also have "\<dots> = (unat w = 0 \<or> unat w = 2 ^ 63)"
    using lt by auto
  also have "\<dots> = (w = 0 \<or> w = 0x8000000000000000)"
    by (simp add: word_unat_eq_iff)
  finally show ?thesis .
qed

text \<open>The code's test \<open>isZero\<close> agrees with the emptiness predicate on every kind but
  \<^verbatim>\<open>uintptr\<close>, for which it has no case.\<close>

lemma isZero_emptyValue:
  "kind_of x \<noteq> Uintptr \<Longrightarrow> isZero (Value t x a r) = emptyValue x"
proof (cases x rule: emptyValue.cases)
  case (11 w)
  then show ?thesis by (simp add: float32_zero_bits)
next
  case (12 w)
  then show ?thesis by (simp add: float64_zero_bits)
next
  case (8 w i)
  then show ?thesis by (cases w) simp_all
next
  case (9 w n)
  then show ?thesis by (cases w) simp_all
qed simp_all

lemma isZero_uintptr: "\<not> isZero (Value t (VUintptr n) a r)"
  by simp

text \<open>
  Away from \<^verbatim>\<open>uintptr\<close> the two policies do on a leaf what the emptiness predicate
  says: when the loop over a record succeeds, a field that passes the filters, has no
  override, is settable and is not of struct kind is, under \<^verbatim>\<open>ExcludeEmpty\<close>, as it was
  if the source's value is empty and else holds the source's value; under
  \<^verbatim>\<open>OverwriteEmpty\<close> it holds the source's value if the destination's value was empty,
  and else is as it was.
\<close>

lemma ExcludeEmpty_leaf:
  assumes "mergeFields E cfg im em prefix dst src ds ss = Return None r"
    and "i < length ds"
    and "Option cfg = ExcludeEmpty"
    and "passesFilters cfg im em (prefix @ Name (ds ! i))"
    and "\<not> Implements E (CHR ''*'' # ftype (ds ! i))"
    and "CanSet (FieldV dst (ds ! i))"
    and "kind_of (fval (ds ! i)) \<noteq> Struct"
    and "kind_of (fval (ss ! i)) \<noteq> Uintptr"
  shows "r ! i = (if emptyValue (fval (ss ! i)) then ds ! i else setval (ds ! i) (fval (ss ! i)))"
proof -
  let ?d = "ds ! i" and ?s = "ss ! i"
  have run: "mergeField E cfg im em prefix dst src ?d ?s = Return None (r ! i)"
    using assms(1,2) by (rule mergeFields_nth_success)
  have leaf: "mergeField E cfg im em prefix dst src ?d ?s =
     (if \<not> isZero (FieldV src ?s)
      then (case Set (FieldV dst ?d) (FieldV src ?s) of
              None \<Rightarrow> Panic
            | Some f \<Rightarrow> Return None (setval ?d (Val f)))
      else Return None ?d)"
    using mergeField_leaf [OF assms(4-7), of src ?s] assms(3)
    by (simp add: ExcludeEmpty_def IncludeAll_def)
  have valid: "FieldV src ?s \<noteq> NoValue"
  proof
    assume "FieldV src ?s = NoValue"
    with leaf run show False by simp
  qed
  then obtain t x a r' where src: "src = Value t x a r'" by (cases src) auto
  then have z: "isZero (FieldV src ?s) = emptyValue (fval ?s)"
    using assms(8) by (simp add: isZero_emptyValue del: isZero.simps)
  show ?thesis
  proof (cases "emptyValue (fval ?s)")
    case True
    with z leaf run show ?thesis by simp
  next
    case False
    with z leaf run obtain f where f: "Set (FieldV dst ?d) (FieldV src ?s) = Some f"
      and r: "r ! i = setval ?d (Val f)"
      by (auto split: option.splits)
    from Set_Val [OF f] have "Val f = fval ?s" by (simp add: Val_FieldV)
    with r False show ?thesis by simp
  qed
qed

lemma OverwriteEmpty_leaf:
  assumes "mergeFields E cfg im em prefix dst src ds ss = Return None r"
    and "i < length ds"
    and "Option cfg = OverwriteEmpty"
    and "passesFilters cfg im em (prefix @ Name (ds ! i))"
    and "\<not> Implements E (CHR ''*'' # ftype (ds ! i))"
    and "CanSet (FieldV dst (ds ! i))"
    and "kind_of (fval (ds ! i)) \<noteq> Struct"
    and "kind_of (fval (ds ! i)) \<noteq> Uintptr"
  shows "r ! i = (if emptyValue (fval (ds ! i)) then setval (ds ! i) (fval (ss ! i)) else ds ! i)"
proof -
  let ?d = "ds ! i" and ?s = "ss ! i"
  have run: "mergeField E cfg im em prefix dst src ?d ?s = Return None (r ! i)"
    using assms(1,2) by (rule mergeFields_nth_success)
  from assms(6) obtain t x where dst: "dst = Value t x True False"
    by (cases dst) (auto simp: CanSet_def)
  then have z: "isZero (FieldV dst ?d) = emptyValue (fval ?d)"
    using assms(8) by (simp add: isZero_emptyValue del: isZero.simps)
  show ?thesis
  proof (cases "emptyValue (fval ?d)")
    case True
    with z run assms(3) mergeField_leaf [OF assms(4-7), of src ?s]
    obtain f where f: "Set (FieldV dst ?d) (FieldV src ?s) = Some f" and r: "r ! i = setval ?d (Val f)"
      by (auto simp: OverwriteEmpty_def ExcludeEmpty_def IncludeAll_def split: option.splits)
    from Set_Val [OF f] have "Val f = fval ?s" by (simp add: Val_FieldV)
    with r True show ?thesis by simp
  next
    case False
    with z run assms(3) mergeField_leaf [OF assms(4-7), of src ?s] show ?thesis
      by (auto simp: OverwriteEmpty_def ExcludeEmpty_def IncludeAll_def)
  qed
qed

text \<open>
  Claim C2 says that under \<^verbatim>\<open>ExcludeEmpty\<close> a processed leaf field keeps the
  destination's value when the source's value is empty, an unsigned integer being empty
  when it is zero. The code does not do so for a \<^verbatim>\<open>uintptr\<close>: the case list of
  \<open>isZero\<close> names \<^verbatim>\<open>Uint\<close>, \<^verbatim>\<open>Uint8\<close>, \<^verbatim>\<open>Uint16\<close>, \<^verbatim>\<open>Uint32\<close> and \<^verbatim>\<open>Uint64\<close> but
  not \<^verbatim>\<open>Uintptr\<close>, so a source \<^verbatim>\<open>uintptr\<close> of 0, empty by the claim's predicate, is not
  empty for the code, and \<^verbatim>\<open>Merge\<close> replaces the destination's 5 by it.
\<close>

theorem ExcludeEmpty_zero_uintptr_overwrites:
  "emptyValue (VUintptr 0) \<and>
   \<not> isZero (Value ''uintptr'' (VUintptr 0) False False) \<and>
   Merge noMergers
      (ptrTo ''main.Handle'' (VStruct [StructField ''P'' True ''uintptr'' (VUintptr 5)]))
      (Iface ''main.Handle'' (VStruct [StructField ''P'' True ''uintptr'' (VUintptr 0)]))
      [\<lparr>Option = ExcludeEmpty, Include = [], Exclude = []\<rparr>]
     = Return None
        (ValueOf (ptrTo ''main.Handle'' (VStruct [StructField ''P'' True ''uintptr'' (VUintptr 0)])))"
  by (simp add: merge_eval ptrTo_def noMergers_def)

text \<open>
  Claim C3 says that under \<^verbatim>\<open>OverwriteEmpty\<close> a processed leaf field whose destination
  value is empty takes the source's value. The code does not do so for a \<^verbatim>\<open>uintptr\<close>,
  by the same missing case of \<open>isZero\<close>: a destination \<^verbatim>\<open>uintptr\<close> of 0, empty by the
  emptiness predicate, is not empty for the code, and \<^verbatim>\<open>Merge\<close> leaves it 0 where the
  source holds 5.
\<close>

theorem OverwriteEmpty_zero_uintptr_not_filled:
  "emptyValue (VUintptr 0) \<and>
   \<not> isZero (Value ''uintptr'' (VUintptr 0) True False) \<and>
   Merge noMergers
      (ptrTo ''main.Handle'' (VStruct [StructField ''P'' True ''uintptr'' (VUintptr 0)]))
      (Iface ''main.Handle'' (VStruct [StructField ''P'' True ''uintptr'' (VUintptr 5)]))
      [\<lparr>Option = OverwriteEmpty, Include = [], Exclude = []\<rparr>]
     = Return None
        (ValueOf (ptrTo ''main.Handle'' (VStruct [StructField ''P'' True ''uintptr'' (VUintptr 0)])))"
  by (simp add: merge_eval ptrTo_def noMergers_def)

section \<open>Two values of one type\<close>

lemma kind_of_Struct: "kind_of x = Struct \<longleftrightarrow> (\<exists>fs. x = VStruct fs)"
  by (cases x rule: kind_of.cases) auto

lemma sameType_VStruct:
  "sameType (VStruct ds) y \<longleftrightarrow> (\<exists>ss. y = VStruct ss \<and> sameTypeFields ds ss)"
  by (cases y) auto

text \<open>
  The nested calls never fail a check: on values of one type, a call on a pointer that is
  not read-only returns no error unless the record's own override does, and neither do
  the loop and its body.
\<close>

lemma walk_no_error:
  shows "dst = Value t (VPtr te (Some x)) a False \<Longrightarrow> src = Value te y a' False \<Longrightarrow>
      kind_of x = Struct \<Longrightarrow> sameType x y \<Longrightarrow>
      te = ''time.Time'' \<or> \<not> Implements E (CHR ''*'' # te) \<Longrightarrow>
      \<not> returnsError (mergeValues E dst src cfg prefix)"
    and "CanSet dst \<Longrightarrow> CanInterface src \<Longrightarrow> sameTypeFields ds ss \<Longrightarrow>
      \<not> returnsError (mergeFields E cfg im em prefix dst src ds ss)"
    and "CanSet dst \<Longrightarrow> CanInterface src \<Longrightarrow>
      exported d = exported s \<Longrightarrow> ftype d = ftype s \<Longrightarrow> sameType (fval d) (fval s) \<Longrightarrow>
      \<not> returnsError (mergeField E cfg im em prefix dst src d s)"
proof (induction E dst src cfg prefix and E cfg im em prefix dst src ds ss
    and E cfg im em prefix dst src d s
    arbitrary: t te x a y a' rule: mergeValues_mergeFields_mergeField.induct)
  case (1 E dst src cfg prefix)
  from "1.prems"(3,4) obtain ds ss where x: "x = VStruct ds" and y: "y = VStruct ss"
    and same: "sameTypeFields ds ss"
    by (auto simp: kind_of_Struct sameType_VStruct simp del: sameType.simps)
  show ?case
  proof (cases "te = ''time.Time''")
    case True
    with "1.prems" x y show ?thesis
      by (simp add: mergeValues_timeTime returnsError_def)
  next
    case False
    with "1.prems" have no: "\<not> Implements E (CHR ''*'' # te)" by simp
    have "\<not> returnsError (mergeFields E cfg (makeSet [] (Include cfg)) (makeSet [] (Exclude cfg))
        prefix (Value te x True False) src (structFields (Value te x True False)) (structFields src))"
      using "1.prems" x y same False no
      by (intro "1.IH" [where ?x2.0 = dst]) (auto simp: CanInterface_def CanAddr_def CanSet_def)
    with "1.prems" x y False no show ?thesis
      by (auto simp: mergeValues.simps CanInterface_def CanAddr_def returnsError_def
          split: outcome.splits option.splits)
  qed
next
  case (2 E cfg includeMap excludeMap prefix dst src ss)
  then show ?case by (simp add: returnsError_def)
next
  case (3 E cfg includeMap excludeMap prefix dst src d ds)
  then show ?case by simp
next
  case (4 E cfg includeMap excludeMap prefix dst src d ds s ss)
  from "4.prems" have head: "\<not> returnsError (mergeField E cfg includeMap excludeMap prefix dst src d s)"
    by (intro "4.IH"(1)) auto
  show ?case
  proof (cases "mergeField E cfg includeMap excludeMap prefix dst src d s")
    case Panic
    then show ?thesis by (simp add: returnsError_def)
  next
    case (Return e d')
    with head have e: "e = None" by (cases e) (auto simp: returnsError_def)
    with Return "4.prems" have "\<not> returnsError (mergeFields E cfg includeMap excludeMap prefix dst src ds ss)"
      by (intro "4.IH"(2)) auto
    with Return e show ?thesis
      by (auto simp: returnsError_def split: outcome.splits option.splits)
  qed
next
  case (5 E cfg includeMap excludeMap prefix dst src d s)
  from "5.prems"(1) obtain td xd where dst: "dst = Value td xd True False"
    by (cases dst) (auto simp: CanSet_def)
  from "5.prems"(2) obtain ts xs as where src: "src = Value ts xs as False"
    by (cases src) (auto simp: CanInterface_def)
  show ?case
  proof (cases "passesFilters cfg includeMap excludeMap (prefix @ Name d) \<and>
      \<not> Implements E (CHR ''*'' # ftype d) \<and> exported d \<and> kind_of (fval d) = Struct")
    case True
    let ?p = "Value (CHR ''*'' # ftype d) (VPtr (ftype d) (Some (fval d))) False False"
    have "\<not> returnsError (mergeValues E ?p (FieldV src s) cfg ((prefix @ Name d) @ ''.''))"
      using True "5.prems" dst src
      by (intro "5.IH" [where xb = "FieldV dst d" and y = "fval s"])
        (auto simp: passesFilters_def CanAddr_def CanSet_def)
    with True dst show ?thesis
      by (auto simp: mergeField.simps Let_def passesFilters_def CanAddr_def CanSet_def returnsError_def
          split: outcome.splits option.splits)
  next
    case False
    with dst show ?thesis
      by (auto simp: mergeField.simps Let_def passesFilters_def CanAddr_def CanSet_def returnsError_def
          split: outcome.splits option.splits)
  qed
qed

section \<open>The checks of the arguments\<close>

lemma not_ptrToStruct:
  "\<not> ptrToStruct dst \<Longrightarrow> KindV (ValueOf dst) \<noteq> Ptr \<or> KindV (Elem (ValueOf dst)) \<noteq> Struct"
  by (cases dst rule: ptrToStruct.cases) (auto simp: kind_of_Struct)

lemma not_isStruct: "\<not> isStruct src \<Longrightarrow> KindV (ValueOf src) \<noteq> Struct"
  by (cases src rule: isStruct.cases) (auto simp: kind_of_Struct)

text \<open>
  Claim C6: \<^verbatim>\<open>Merge\<close> returns \<^verbatim>\<open>ErrInvalidDestination\<close> when the destination is not a
  pointer whose referent is a struct, whatever the source; else \<^verbatim>\<open>ErrInvalidSource\<close>
  when the source is not a struct, whatever its type; else \<^verbatim>\<open>ErrTypeMismatch\<close> when the
  two types differ; in each case it writes nothing. Else the checks pass: on values of
  one type no call returns one of these errors, and an error that \<^verbatim>\<open>Merge\<close> returns is
  the one returned by the override of the destination's own type.
\<close>

theorem validation_order:
  "(\<not> ptrToStruct dst \<longrightarrow>
      Merge E dst src cfgs = Return (Some ErrInvalidDestination) (ValueOf dst)) \<and>
   (\<not> isStruct src \<longrightarrow>
      Merge E (Iface t (VPtr te (Some (VStruct ds)))) src cfgs
        = Return (Some ErrInvalidSource) (ValueOf (Iface t (VPtr te (Some (VStruct ds)))))) \<and>
   (te \<noteq> ts \<longrightarrow>
      Merge E (Iface t (VPtr te (Some (VStruct ds)))) (Iface ts (VStruct ss)) cfgs
        = Return (Some ErrTypeMismatch) (ValueOf (Iface t (VPtr te (Some (VStruct ds)))))) \<and>
   (sameTypeFields ds ss \<and>
    Merge E (Iface t (VPtr te (Some (VStruct ds)))) (Iface te (VStruct ss)) cfgs = Return (Some e) v \<longrightarrow>
      te \<noteq> ''time.Time'' \<and>
      (\<exists>m. merger E (CHR ''*'' # te) = Some m \<and>
           snd (m (VStruct ds) (ValueOf (Iface te (VStruct ss)))) = Some e))"
proof (intro conjI impI)
  assume "\<not> ptrToStruct dst"
  from not_ptrToStruct [OF this]
  show "Merge E dst src cfgs = Return (Some ErrInvalidDestination) (ValueOf dst)"
    by (simp add: Merge_def mergeValues.simps)
next
  assume "\<not> isStruct src"
  from not_isStruct [OF this]
  show "Merge E (Iface t (VPtr te (Some (VStruct ds)))) src cfgs
        = Return (Some ErrInvalidSource) (ValueOf (Iface t (VPtr te (Some (VStruct ds)))))"
    by (simp add: Merge_def mergeValues.simps)
next
  assume "te \<noteq> ts"
  then show "Merge E (Iface t (VPtr te (Some (VStruct ds)))) (Iface ts (VStruct ss)) cfgs
        = Return (Some ErrTypeMismatch) (ValueOf (Iface t (VPtr te (Some (VStruct ds)))))"
    by (simp add: Merge_def mergeValues.simps)
next
  assume h: "sameTypeFields ds ss \<and>
    Merge E (Iface t (VPtr te (Some (VStruct ds)))) (Iface te (VStruct ss)) cfgs = Return (Some e) v"
  define cfg where "cfg = (if length cfgs > 0 then cfgs ! 0
      else \<lparr>Option = IncludeAll, Include = [], Exclude = []\<rparr>)"
  let ?dst = "Value t (VPtr te (Some (VStruct ds))) False False"
  let ?src = "Value te (VStruct ss) False False"
  from h have run: "mergeValues E ?dst ?src cfg [] = Return (Some e) v"
    by (simp add: Merge_def cfg_def)
  then have err: "returnsError (mergeValues E ?dst ?src cfg [])"
    by (simp add: returnsError_def)
  have over: "te \<noteq> ''time.Time'' \<and> Implements E (CHR ''*'' # te)"
  proof (rule ccontr)
    assume "\<not> (te \<noteq> ''time.Time'' \<and> Implements E (CHR ''*'' # te))"
    then have "te = ''time.Time'' \<or> \<not> Implements E (CHR ''*'' # te)" by blast
    with h have "\<not> returnsError (mergeValues E ?dst ?src cfg [])"
      by (intro walk_no_error(1) [where x = "VStruct ds" and y = "VStruct ss"]) auto
    with err show False by simp
  qed
  then obtain m where m: "merger E (CHR ''*'' # te) = Some m"
    by (auto simp: Implements_def)
  with over have "mergeValues E ?dst ?src cfg []
      = Return (snd (m (VStruct ds) ?src)) (Value t (VPtr te (Some (fst (m (VStruct ds) ?src)))) False False)"
    by (intro mergeValues_override) auto
  with run have "snd (m (VStruct ds) ?src) = Some e" by simp
  with over m show "te \<noteq> ''time.Time''"
    and "\<exists>m. merger E (CHR ''*'' # te) = Some m \<and>
           snd (m (VStruct ds) (ValueOf (Iface te (VStruct ss)))) = Some e"
    by auto
qed

text \<open>The three tests of \<^verbatim>\<open>TestMergeErrors\<close>, a destination that fails all three checks
  at once, a source that fails the last two, and the error of \<^verbatim>\<open>(*Locked).Merge\<close>.\<close>

theorem validation_order_witness:
  "Merge noMergers (Iface ''structmerge.TestStruct'' (TestStruct [] 0 (Address [] [] []) False 0 []))
      (Iface ''structmerge.TestStruct'' (TestStruct [] 0 (Address [] [] []) False 0 [])) [] =
     Return (Some ErrInvalidDestination)
       (ValueOf (Iface ''structmerge.TestStruct'' (TestStruct [] 0 (Address [] [] []) False 0 []))) \<and>
   Merge noMergers (Iface ''int'' (VInt Word 3)) (Iface ''*main.T'' (VPtr ''main.T'' None)) [] =
     Return (Some ErrInvalidDestination) (ValueOf (Iface ''int'' (VInt Word 3))) \<and>
   Merge noMergers (Iface ''*main.T'' (VPtr ''main.T'' (Some (VStruct []))))
      (Iface ''*main.U'' (VPtr ''main.U'' (Some (VStruct [])))) [] =
     Return (Some ErrInvalidSource) (ValueOf (Iface ''*main.T'' (VPtr ''main.T'' (Some (VStruct []))))) \<and>
   Merge noMergers (Iface ''*main.T'' (VPtr ''main.T'' (Some (VStruct []))))
      (Iface ''struct { Foo string }'' (VStruct [StructField ''Foo'' True ''string'' (VString [])])) [] =
     Return (Some ErrTypeMismatch) (ValueOf (Iface ''*main.T'' (VPtr ''main.T'' (Some (VStruct []))))) \<and>
   (\<exists>m. merger testMergers ''*structmerge.Locked'' = Some m \<and>
        snd (m (VStruct []) (ValueOf (Iface ''structmerge.Locked'' (VStruct [])))) = Some (ErrOther ''locked''))"
proof -
  have run: "Merge testMergers (Iface ''*structmerge.Locked'' (VPtr ''structmerge.Locked'' (Some (VStruct []))))
      (Iface ''structmerge.Locked'' (VStruct [])) [] =
     Return (Some (ErrOther ''locked''))
       (ValueOf (Iface ''*structmerge.Locked'' (VPtr ''structmerge.Locked'' (Some (VStruct [])))))"
    by (simp add: mergeValues_override [where m = lockedMerge] Merge_def testMergers_def lockedMerge_def)
  show ?thesis
    using validation_order [where E = noMergers
        and dst = "Iface ''structmerge.TestStruct'' (TestStruct [] 0 (Address [] [] []) False 0 [])"
        and src = "Iface ''structmerge.TestStruct'' (TestStruct [] 0 (Address [] [] []) False 0 [])"
        and cfgs = "[]"]
      validation_order [where E = noMergers and dst = "Iface ''int'' (VInt Word 3)"
        and src = "Iface ''*main.T'' (VPtr ''main.T'' None)" and cfgs = "[]"]
      validation_order [where E = noMergers and t = "''*main.T''" and te = "''main.T''" and ds = "[]"
        and src = "Iface ''*main.U'' (VPtr ''main.U'' (Some (VStruct [])))" and cfgs = "[]"
        and ts = "''struct { Foo string }''" and ss = "[StructField ''Foo'' True ''string'' (VString [])]"]
      validation_order [where E = testMergers and t = "''*structmerge.Locked''"
        and te = "''structmerge.Locked''" and ds = "[]" and ss = "[]" and cfgs = "[]"
        and e = "ErrOther ''locked''"
        and v = "ValueOf (Iface ''*structmerge.Locked'' (VPtr ''structmerge.Locked'' (Some (VStruct []))))"]
      run
    by (simp add: TestStruct_def)
qed

section \<open>The default configuration\<close>

lemma expected_leaf: "kind_of x \<noteq> Struct \<Longrightarrow> expected x y = y"
  by (cases x) auto

lemma mergeField_not_settable:
  "\<not> CanSet (FieldV dst d) \<Longrightarrow> mergeField E cfg im em prefix dst src d s = Return e d' \<Longrightarrow> d' = d"
  by (cases dst)
    (auto simp add: mergeField.simps Let_def CanSet_def CanAddr_def split: if_splits option.splits)

text \<open>With the default configuration, on values of one type, the walk of a record that
  meets no override and no \<^verbatim>\<open>time.Time\<close> succeeds with that result.\<close>

lemma walk_IncludeAll:
  shows "dst = Value t (VPtr te (Some x)) a False \<Longrightarrow> src = Value te y a' False \<Longrightarrow>
      kind_of x = Struct \<Longrightarrow> sameType x y \<Longrightarrow> te \<noteq> ''time.Time'' \<Longrightarrow>
      \<not> Implements E (CHR ''*'' # te) \<Longrightarrow> plainWalk E x \<Longrightarrow>
      Option cfg = IncludeAll \<Longrightarrow> Include cfg = [] \<Longrightarrow> Exclude cfg = [] \<Longrightarrow>
      mergeValues E dst src cfg prefix = Return None (Value t (VPtr te (Some (expected x y))) a False)"
    and "CanSet dst \<Longrightarrow> CanInterface src \<Longrightarrow> sameTypeFields ds ss \<Longrightarrow> plainWalkFields E ds \<Longrightarrow>
      Option cfg = IncludeAll \<Longrightarrow> Include cfg = [] \<Longrightarrow> Exclude cfg = [] \<Longrightarrow> em = [] \<Longrightarrow>
      mergeFields E cfg im em prefix dst src ds ss = Return None (expectedFields ds ss)"
    and "CanSet dst \<Longrightarrow> CanInterface src \<Longrightarrow>
      exported d = exported s \<Longrightarrow> ftype d = ftype s \<Longrightarrow> sameType (fval d) (fval s) \<Longrightarrow>
      \<not> Implements E (CHR ''*'' # ftype d) \<Longrightarrow>
      (exported d \<and> kind_of (fval d) = Struct \<longrightarrow> ftype d \<noteq> ''time.Time'' \<and> plainWalk E (fval d)) \<Longrightarrow>
      Option cfg = IncludeAll \<Longrightarrow> Include cfg = [] \<Longrightarrow> Exclude cfg = [] \<Longrightarrow> em = [] \<Longrightarrow>
      mergeField E cfg im em prefix dst src d s
        = Return None (if exported d then setval d (expected (fval d) (fval s)) else d)"
proof (induction E dst src cfg prefix and E cfg im em prefix dst src ds ss
    and E cfg im em prefix dst src d s
    arbitrary: t te x a y a' rule: mergeValues_mergeFields_mergeField.induct)
  case (1 E dst src cfg prefix)
  from "1.prems"(3,4) obtain ds ss where x: "x = VStruct ds" and y: "y = VStruct ss"
    and same: "sameTypeFields ds ss"
    by (auto simp: kind_of_Struct sameType_VStruct simp del: sameType.simps)
  from "1.prems" have no: "\<not> Implements E (CHR ''*'' # te)" by simp
  have "mergeFields E cfg (makeSet [] (Include cfg)) (makeSet [] (Exclude cfg))
        prefix (Value te x True False) src (structFields (Value te x True False)) (structFields src)
      = Return None (expectedFields (structFields (Value te x True False)) (structFields src))"
    using "1.prems" x y same no
    by (intro "1.IH" [where ?x2.0 = dst]) (auto simp: CanInterface_def CanAddr_def CanSet_def)
  with "1.prems" x y no show ?case
    by (simp add: mergeValues.simps CanInterface_def CanAddr_def)
next
  case (2 E cfg includeMap excludeMap prefix dst src ss)
  then show ?case by simp
next
  case (3 E cfg includeMap excludeMap prefix dst src d ds)
  then show ?case by simp
next
  case (4 E cfg includeMap excludeMap prefix dst src d ds s ss)
  from "4.prems" have head: "mergeField E cfg includeMap excludeMap prefix dst src d s
      = Return None (if exported d then setval d (expected (fval d) (fval s)) else d)"
    by (intro "4.IH"(1)) auto
  with "4.prems" have "mergeFields E cfg includeMap excludeMap prefix dst src ds ss
      = Return None (expectedFields ds ss)"
    by (intro "4.IH"(2)) auto
  with head show ?case by simp
next
  case (5 E cfg includeMap excludeMap prefix dst src d s)
  from "5.prems"(1) obtain td xd where dst: "dst = Value td xd True False"
    by (cases dst) (auto simp: CanSet_def)
  from "5.prems"(2) obtain ts xs as where src: "src = Value ts xs as False"
    by (cases src) (auto simp: CanInterface_def)
  from "5.prems" have no: "\<not> Implements E (CHR ''*'' # ftype d)" by simp
  show ?case
  proof (cases "exported d \<and> kind_of (fval d) = Struct")
    case True
    let ?p = "Value (CHR ''*'' # ftype d) (VPtr (ftype d) (Some (fval d))) False False"
    have "mergeValues E ?p (FieldV src s) cfg ((prefix @ Name d) @ ''.'')
        = Return None (Value (CHR ''*'' # ftype d) (VPtr (ftype d) (Some (expected (fval d) (fval s)))) False False)"
      using True "5.prems" dst src no
      by (intro "5.IH" [where xb = "FieldV dst d"]) (auto simp: CanAddr_def CanSet_def)
    with True dst no "5.prems" show ?thesis
      by (simp add: mergeField.simps Let_def CanAddr_def CanSet_def writeBack_def)
  next
    case False
    with dst src no "5.prems" show ?thesis
      by (auto simp: mergeField.simps Let_def CanAddr_def CanSet_def expected_leaf
          simp del: expected.simps)
  qed
qed

text \<open>
  Claim C1, as the code has it. For a destination and a source of one struct type that is
  not \<^verbatim>\<open>time.Time\<close> and has no override, where the walk meets no override and no
  \<^verbatim>\<open>time.Time\<close>, \<^verbatim>\<open>Merge\<close> with the default configuration (none given, or
  \<^verbatim>\<open>IncludeAll\<close> with no lists given first) succeeds and leaves the source in the
  destination, field for field, but for the unexported fields, which keep the
  destination's values. And whatever the policy, the filters and the overrides: when the
  loop over a record returns, a field that is not settable is as it was.
\<close>

theorem IncludeAll_default:
  "(te \<noteq> ''time.Time'' \<and> \<not> Implements E (CHR ''*'' # te) \<and> sameTypeFields ds ss \<and>
    plainWalkFields E ds \<longrightarrow>
      Merge E (Iface t (VPtr te (Some (VStruct ds)))) (Iface te (VStruct ss)) []
        = Return None (ValueOf (Iface t (VPtr te (Some (VStruct (expectedFields ds ss)))))) \<and>
      Merge E (Iface t (VPtr te (Some (VStruct ds)))) (Iface te (VStruct ss))
          (\<lparr>Option = IncludeAll, Include = [], Exclude = []\<rparr> # cfgs)
        = Return None (ValueOf (Iface t (VPtr te (Some (VStruct (expectedFields ds ss))))))) \<and>
   (mergeFields E cfg im em prefix dst src fs gs = Return e r \<and> i < length fs \<and>
    \<not> CanSet (FieldV dst (fs ! i)) \<longrightarrow>
      r ! i = fs ! i)"
proof (intro conjI impI)
  assume h: "te \<noteq> ''time.Time'' \<and> \<not> Implements E (CHR ''*'' # te) \<and> sameTypeFields ds ss \<and>
    plainWalkFields E ds"
  let ?cfg = "\<lparr>Option = IncludeAll, Include = [], Exclude = []\<rparr>"
  have "mergeValues E (Value t (VPtr te (Some (VStruct ds))) False False)
      (Value te (VStruct ss) False False) ?cfg []
    = Return None (Value t (VPtr te (Some (expected (VStruct ds) (VStruct ss)))) False False)"
    using h by (intro walk_IncludeAll(1)) auto
  then show "Merge E (Iface t (VPtr te (Some (VStruct ds)))) (Iface te (VStruct ss)) []
        = Return None (ValueOf (Iface t (VPtr te (Some (VStruct (expectedFields ds ss))))))"
    and "Merge E (Iface t (VPtr te (Some (VStruct ds)))) (Iface te (VStruct ss))
          (\<lparr>Option = IncludeAll, Include = [], Exclude = []\<rparr> # cfgs)
        = Return None (ValueOf (Iface t (VPtr te (Some (VStruct (expectedFields ds ss))))))"
    by (simp_all add: Merge_def)
next
  assume h: "mergeFields E cfg im em prefix dst src fs gs = Return e r \<and> i < length fs \<and>
    \<not> CanSet (FieldV dst (fs ! i))"
  then have "r ! i = fs ! i \<or>
      (\<exists>e'. mergeField E cfg im em prefix dst src (fs ! i) (gs ! i) = Return e' (r ! i))"
    by (intro mergeFields_nth) auto
  with h show "r ! i = fs ! i"
    by (auto dest: mergeField_not_settable)
qed

text \<open>The tests \<^verbatim>\<open>IncludeAll\<close> and \<^verbatim>\<open>HiddenFields\<close> of the test file, in the test
  package with its overrides \<^verbatim>\<open>(*Date).Merge\<close> and \<^verbatim>\<open>(*Locked).Merge\<close>, which the walk
  of a \<^verbatim>\<open>TestStruct\<close> does not meet; and under \<^verbatim>\<open>OverwriteEmpty\<close> the unexported
  \<^verbatim>\<open>hidden\<close>, empty in the destination, stays empty.\<close>

theorem IncludeAll_default_witness:
  "Merge testMergers
      (ptrTo ''structmerge.TestStruct''
         (TestStruct ''Alice'' 30 (Address ''123 Old St'' ''Old City'' '''') False 0 ''old''))
      (Iface ''structmerge.TestStruct''
         (TestStruct ''Bob'' 25 (Address ''456 New St'' ''New City'' ''New Country'') True 5 ''new'')) []
     = Return None (ValueOf (ptrTo ''structmerge.TestStruct''
         (TestStruct ''Bob'' 25 (Address ''456 New St'' ''New City'' ''New Country'') True 5 ''old''))) \<and>
   mergeFields testMergers \<lparr>Option = OverwriteEmpty, Include = [], Exclude = []\<rparr> [] [] []
      (Value ''main.T'' (VStruct []) True False) (Value ''main.T'' (VStruct []) False False)
      [StructField ''Age'' True ''int'' (VInt Word 0), StructField ''hidden'' False ''string'' (VString '''')]
      [StructField ''Age'' True ''int'' (VInt Word 25), StructField ''hidden'' False ''string'' (VString ''new'')]
     = Return None
        [StructField ''Age'' True ''int'' (VInt Word 25), StructField ''hidden'' False ''string'' (VString '''')] \<and>
   [StructField ''Age'' True ''int'' (VInt Word 25), StructField ''hidden'' False ''string'' (VString '''')] ! 1
     = StructField ''hidden'' False ''string'' (VString '''')"
proof -
  let ?cfg = "\<lparr>Option = OverwriteEmpty, Include = [], Exclude = []\<rparr>"
  let ?dst = "Value ''main.T'' (VStruct []) True False"
  let ?fs = "[StructField ''Age'' True ''int'' (VInt Word 0), StructField ''hidden'' False ''string'' (VString '''')]"
  let ?gs = "[StructField ''Age'' True ''int'' (VInt Word 25), StructField ''hidden'' False ''string'' (VString ''new'')]"
  let ?r = "[StructField ''Age'' True ''int'' (VInt Word 25), StructField ''hidden'' False ''string'' (VString '''')]"
  have run: "mergeFields testMergers ?cfg [] [] [] ?dst (Value ''main.T'' (VStruct []) False False) ?fs ?gs
      = Return None ?r"
    by (simp add: merge_eval testMergers_def)
  note inst = IncludeAll_default [where E = testMergers and t = "''*structmerge.TestStruct''"
      and te = "''structmerge.TestStruct''"
      and ds = "structFields (ValueOf (Iface [] (TestStruct ''Alice'' 30 (Address ''123 Old St'' ''Old City'' '''') False 0 ''old'')))"
      and ss = "structFields (ValueOf (Iface [] (TestStruct ''Bob'' 25 (Address ''456 New St'' ''New City'' ''New Country'') True 5 ''new'')))"
      and cfg = ?cfg and im = "[]" and em = "[]" and prefix = "[]" and dst = ?dst
      and src = "Value ''main.T'' (VStruct []) False False" and fs = ?fs and gs = ?gs
      and e = None and r = ?r and i = 1]
  show ?thesis
    using inst run
    by (simp add: TestStruct_def Address_def ptrTo_def testMergers_def Implements_def setval_def CanSet_def)
qed

text \<open>
  Claim C1 as it is written fails where the code copies a \<^verbatim>\<open>time.Time\<close> or calls an
  override, both in the test \<^verbatim>\<open>TestCopyTime\<close>. The merge of two \<^verbatim>\<open>time.Time\<close> leaves
  the source in the destination, so the unexported field \<^verbatim>\<open>wall\<close> (field 0) does not
  keep the destination's value. The merge of two \<^verbatim>\<open>Plan\<close> hands the field \<^verbatim>\<open>Date\<close> to
  \<^verbatim>\<open>(*Date).Merge\<close>, which copies the source's \<^verbatim>\<open>Date\<close>, and so the unexported
  \<^verbatim>\<open>wall\<close> inside the nested field does not keep the destination's value either.
\<close>

theorem IncludeAll_timeTime_counterexample:
  "Merge noMergers (ptrTo ''time.Time'' (timeTime 1 2)) (Iface ''time.Time'' (timeTime 3 4)) []
     = Return None (ValueOf (ptrTo ''time.Time'' (timeTime 3 4))) \<and>
   \<not> exported (structFields (ValueOf (Iface ''time.Time'' (timeTime 1 2))) ! 0) \<and>
   structFields (ValueOf (Iface ''time.Time'' (timeTime 3 4))) ! 0
     \<noteq> structFields (ValueOf (Iface ''time.Time'' (timeTime 1 2))) ! 0 \<and>
   Merge testMergers
      (ptrTo ''structmerge.Plan'' (Plan (timeTime 1 2) None))
      (Iface ''structmerge.Plan'' (Plan (timeTime 3 4) (Some [VUint W8 72, VUint W8 105]))) []
     = Return None (ValueOf (ptrTo ''structmerge.Plan''
         (Plan (timeTime 3 4) (Some [VUint W8 72, VUint W8 105]))))"
  by (simp add: merge_eval Merge_def mergeValues_timeTime ptrTo_def timeTime_def Plan_def
      testMergers_def dateMerge_def)

end
